theory Spec2Isabelle
  imports Complex_Main
begin

section \<open>The catcher game: configuration, entities and the frame update\<close>

text \<open>
  A shallow embedding of the menu-driven (extended) variant of the game: \<^verbatim>\<open>config.ts\<close>,
  \<^verbatim>\<open>entities.ts\<close>, \<^verbatim>\<open>input.ts\<close> and \<^verbatim>\<open>game.ts\<close>.

  Conventions of the embedding.
  \<^item> A JavaScript \<^verbatim>\<open>number\<close> that holds a coordinate, a time or a speed is a \<open>real\<close>:
    the arithmetic is the exact one, the rounding of IEEE doubles is not modelled. The two
    infinite values the code uses are written out: \<^verbatim>\<open>lastBombTime = -Infinity\<close> is the
    constructor \<open>NegInfinity\<close>, and the spawn interval \<^verbatim>\<open>Infinity\<close> is \<open>None\<close>.
  \<^item> A \<^verbatim>\<open>number\<close> that counts (score, lives, the character index) is an \<open>int\<close>.
  \<^item> An optional field (\<^verbatim>\<open>width?\<close>, \<^verbatim>\<open>isHazard?\<close>) and a nullable one are options.
  \<^item> Objects mutated in place (the state, the input flags, the player, the items) are
    passed in and returned.
  \<^item> \<^verbatim>\<open>Math.random()\<close> reads the next element of a sequence of draws that is passed in
    and returned without the elements used; theorems quantify over all sequences.
  \<^item> The \<^verbatim>\<open>TypeError\<close> of reading a property of \<^verbatim>\<open>undefined\<close> is the value \<open>Inl TypeError\<close>.
  \<^item> The fields \<^verbatim>\<open>x\<close>, \<^verbatim>\<open>y\<close>, \<^verbatim>\<open>id\<close>, \<^verbatim>\<open>name\<close>, \<^verbatim>\<open>type\<close> and the input flag \<^verbatim>\<open>back\<close> (here
    \<open>backKey\<close>) are renamed, since a record field is a constant of the theory.
\<close>

subsection \<open>config.ts\<close>

definition GAME_CONFIG_width :: real where
  "GAME_CONFIG_width = 700"

definition GAME_CONFIG_height :: real where
  "GAME_CONFIG_height = 500"

definition GAME_CONFIG_initialLives :: int where
  "GAME_CONFIG_initialLives = 3"

definition MAX_SPAWNS_PER_FRAME :: nat where
  "MAX_SPAWNS_PER_FRAME = 2"

definition RARE_ITEM_CHANCE :: real where
  "RARE_ITEM_CHANCE = 0.15"

record ItemTypeConfig =
  itemId :: string
  spritePath :: "string option"
  scoreValue :: int
  spawnWeight :: int
  typeWidth :: "real option"
  typeHeight :: "real option"
  baseFallSpeed :: real
  isHazard :: "bool option"

text \<open>Truthiness of the optional flag: \<^verbatim>\<open>undefined\<close> and \<^verbatim>\<open>false\<close> are falsy.\<close>

definition hazardous :: "ItemTypeConfig \<Rightarrow> bool" where
  "hazardous t = (isHazard t = Some True)"

definition plainItem :: "string \<Rightarrow> string \<Rightarrow> int \<Rightarrow> ItemTypeConfig" where
  "plainItem i p sc =
     \<lparr>itemId = i, spritePath = Some p, scoreValue = sc, spawnWeight = 1,
      typeWidth = Some 32, typeHeight = Some 32, baseFallSpeed = 80, isHazard = None\<rparr>"

definition ITEM_TYPES :: "ItemTypeConfig list" where
  "ITEM_TYPES =
     [plainItem ''itemA'' ''/assets/items/itemA.png'' 1,
      plainItem ''itemD'' ''/assets/items/itemD.png'' 2,
      plainItem ''itemB'' ''/assets/items/itemB.png'' 1,
      plainItem ''itemF'' ''/assets/items/itemF.png'' 2,
      plainItem ''itemC'' ''/assets/items/itemC.png'' 1,
      plainItem ''itemE'' ''/assets/items/itemE.png'' 2,
      plainItem ''itemG'' ''/assets/items/itemG.png'' 1,
      plainItem ''itemH'' ''/assets/items/itemH.png'' 2,
      \<lparr>itemId = ''bomb'', spritePath = Some ''/assets/items/bomb.png'', scoreValue = 0,
       spawnWeight = 1, typeWidth = Some 32, typeHeight = Some 32, baseFallSpeed = 85,
       isHazard = Some True\<rparr>]"

record Difficulty =
  spawnRate :: real
  speedMultiplier :: real

record DifficultyKeyframe = Difficulty +
  time :: real

definition keyframe :: "real \<Rightarrow> real \<Rightarrow> real \<Rightarrow> DifficultyKeyframe" where
  "keyframe t sr sm = \<lparr>spawnRate = sr, speedMultiplier = sm, time = t\<rparr>"

definition DIFFICULTY_CURVE :: "DifficultyKeyframe list" where
  "DIFFICULTY_CURVE =
     [keyframe 0 0.6 0.8, keyframe 30 1.2 1.0, keyframe 60 1.8 1.2,
      keyframe 90 2.4 1.4, keyframe 120 3.0 1.6]"

text \<open>
  The \<^verbatim>\<open>for\<close> loop of \<^verbatim>\<open>getDifficulty\<close> over the adjacent pairs \<open>(a, b)\<close> of the curve, in
  order; \<open>None\<close> when it runs to its end without returning.
\<close>

fun segmentLoop :: "real \<Rightarrow> DifficultyKeyframe list \<Rightarrow> Difficulty option" where
  "segmentLoop t (a # b # rest) =
     (if t \<ge> time a \<and> t \<le> time b then
        (let f = (t - time a) / (time b - time a)
         in Some \<lparr>spawnRate = spawnRate a + (spawnRate b - spawnRate a) * f,
                  speedMultiplier = speedMultiplier a + (speedMultiplier b - speedMultiplier a) * f\<rparr>)
      else segmentLoop t (b # rest))"
| "segmentLoop t _ = None"

definition getDifficulty :: "real \<Rightarrow> Difficulty" where
  "getDifficulty t =
     (if t \<le> 0 then
        (let first = DIFFICULTY_CURVE ! 0
         in \<lparr>spawnRate = spawnRate first, speedMultiplier = speedMultiplier first\<rparr>)
      else
        (case segmentLoop t DIFFICULTY_CURVE of
           Some d \<Rightarrow> d
         | None \<Rightarrow>
             (let last = DIFFICULTY_CURVE ! (length DIFFICULTY_CURVE - 1)
              in \<lparr>spawnRate = spawnRate last, speedMultiplier = speedMultiplier last\<rparr>)))"

record CharacterConfig =
  charId :: string
  charName :: string
  charSpritePath :: "string option"
  charColor :: string

definition CHARACTERS :: "CharacterConfig list" where
  "CHARACTERS =
     [\<lparr>charId = ''playerA'', charName = ''Wiebke'',
       charSpritePath = Some ''/assets/players/playerA.png'', charColor = ''#4fd1c5''\<rparr>,
      \<lparr>charId = ''playerB'', charName = ''Kathi'',
       charSpritePath = Some ''/assets/players/playerB.png'', charColor = ''#fbd38d''\<rparr>,
      \<lparr>charId = ''playerC'', charName = ''Anne'',
       charSpritePath = Some ''/assets/players/playerC.png'', charColor = ''#f687b3''\<rparr>,
      \<lparr>charId = ''playerD'', charName = ''Hannah'',
       charSpritePath = Some ''/assets/players/playerD.png'', charColor = ''#9f7aea''\<rparr>]"

text \<open>\<^verbatim>\<open>CHARACTERS[i]\<close>: \<^verbatim>\<open>undefined\<close> (here \<open>None\<close>) outside the array.\<close>

definition characterAt :: "int \<Rightarrow> CharacterConfig option" where
  "characterAt i =
     (if 0 \<le> i \<and> i < int (length CHARACTERS) then Some (CHARACTERS ! nat i) else None)"

subsection \<open>entities.ts\<close>

datatype error = TypeError

type_synonym rng = "nat \<Rightarrow> real"

text \<open>One call of \<^verbatim>\<open>Math.random()\<close>: the value drawn and the draws that remain.\<close>

definition random :: "rng \<Rightarrow> real \<times> rng" where
  "random r = (r 0, \<lambda>n. r (Suc n))"

record Rect =
  xpos :: real
  ypos :: real
  width :: real
  height :: real

datatype GameScreen = Start | CharacterSelect | Playing | GameOver

record Player = Rect +
  speed :: real
  color :: string
  character :: CharacterConfig

record FallingItem = Rect +
  vy :: real
  itemType :: ItemTypeConfig

record MissEffect =
  fxX :: real
  fxY :: real
  radius :: real
  timer :: real
  maxTimer :: real

datatype BombTime = NegInfinity | BombAt real

record GameState =
  screen :: GameScreen
  player :: "Player option"
  selectedCharacterIndex :: int
  score :: int
  lives :: int
  elapsedTime :: real
  spawnAccumulator :: real
  items :: "FallingItem list"
  missEffects :: "MissEffect list"
  lastBombTime :: BombTime
  lastSpawnX :: real

text \<open>
  \<^verbatim>\<open>createPlayer\<close> reads \<^verbatim>\<open>character.color\<close>; on \<^verbatim>\<open>undefined\<close> that read throws.
\<close>

definition createPlayer :: "CharacterConfig option \<Rightarrow> real \<Rightarrow> real \<Rightarrow> error + Player" where
  "createPlayer ch canvasWidth canvasHeight =
     (let w = 50; h = 100
      in case ch of
           None \<Rightarrow> Inl TypeError
         | Some c \<Rightarrow>
             Inr \<lparr>xpos = canvasWidth / 2 - w / 2, ypos = canvasHeight - h - 4,
                  width = w, height = h, speed = 300, color = charColor c, character = c\<rparr>)"

definition createFallingItem ::
    "ItemTypeConfig \<Rightarrow> real \<Rightarrow> real option \<Rightarrow> rng \<Rightarrow> FallingItem \<times> rng" where
  "createFallingItem ty canvasWidth lastX r =
     (let w = (case typeWidth ty of Some v \<Rightarrow> v | None \<Rightarrow> 12);
          h = (case typeHeight ty of Some v \<Rightarrow> v | None \<Rightarrow> 12);
          margin = 12;
          minX = margin;
          maxX = canvasWidth - w - margin;
          (u, r') = random r;
          x0 = u * (maxX - minX) + minX;
          x = (case lastX of
                 None \<Rightarrow> x0
               | Some l \<Rightarrow>
                   (let maxStep = canvasWidth * 0.35;
                        delta = x0 - l
                    in if \<bar>delta\<bar> > maxStep
                       then max minX (min maxX (l + sgn delta * maxStep))
                       else x0))
      in (\<lparr>xpos = x, ypos = - h, width = w, height = h, vy = baseFallSpeed ty, itemType = ty\<rparr>,
          r'))"

definition aabbIntersect :: "'a Rect_scheme \<Rightarrow> 'b Rect_scheme \<Rightarrow> bool" where
  "aabbIntersect a b =
     (\<not> (xpos a + width a < xpos b \<or>
         xpos a > xpos b + width b \<or>
         ypos a + height a < ypos b \<or>
         ypos a > ypos b + height b))"

subsection \<open>input.ts\<close>

record InputState =
  left :: bool
  right :: bool
  confirm :: bool
  restart :: bool
  backKey :: bool

definition createInputState :: InputState where
  "createInputState =
     \<lparr>left = False, right = False, confirm = False, restart = False, backKey = False\<rparr>"

subsection \<open>game.ts\<close>

text \<open>
  Of \<^verbatim>\<open>GameRuntime\<close> the canvas, the drawing context, the listener handle and the clock of
  the frame loop are left out: the update functions do not read them.
\<close>

record GameRuntime =
  state :: GameState
  input :: InputState
  spawnRateDebug :: real

definition createInitialState :: GameState where
  "createInitialState =
     \<lparr>screen = Start, player = None, selectedCharacterIndex = 0, score = 0,
      lives = GAME_CONFIG_initialLives, elapsedTime = 0, spawnAccumulator = 0,
      items = [], missEffects = [], lastBombTime = NegInfinity,
      lastSpawnX = GAME_CONFIG_width / 2\<rparr>"

text \<open>
  The remainder operator \<^verbatim>\<open>%\<close> on integers: the sign of the result is that of the
  dividend. (The divisor is the catalog size, never zero.)
\<close>

definition jsRemainder :: "int \<Rightarrow> int \<Rightarrow> int" where
  "jsRemainder a b = sgn a * (\<bar>a\<bar> mod \<bar>b\<bar>)"

definition beginPlay :: "GameState \<Rightarrow> error + GameState" where
  "beginPlay s =
     (let ch = characterAt (selectedCharacterIndex s)
      in case createPlayer ch GAME_CONFIG_width GAME_CONFIG_height of
           Inl e \<Rightarrow> Inl e
         | Inr p \<Rightarrow>
             Inr (s\<lparr>player := Some p, screen := Playing, score := 0,
                    lives := GAME_CONFIG_initialLives, elapsedTime := 0,
                    spawnAccumulator := 0, items := [], missEffects := [],
                    lastBombTime := NegInfinity, lastSpawnX := GAME_CONFIG_width / 2\<rparr>))"

definition updateCharacterSelect ::
    "GameState \<Rightarrow> InputState \<Rightarrow> real \<Rightarrow> error + GameState \<times> InputState" where
  "updateCharacterSelect s0 i0 dt =
     (let n = int (length CHARACTERS);
          (s1, i1) =
            (if left i0
             then (s0\<lparr>selectedCharacterIndex := jsRemainder (selectedCharacterIndex s0 - 1 + n) n\<rparr>,
                   i0\<lparr>left := False\<rparr>)
             else (s0, i0));
          (s2, i2) =
            (if right i1
             then (s1\<lparr>selectedCharacterIndex := jsRemainder (selectedCharacterIndex s1 + 1) n\<rparr>,
                   i1\<lparr>right := False\<rparr>)
             else (s1, i1))
      in if confirm i2
         then (case beginPlay s2 of
                 Inl e \<Rightarrow> Inl e
               | Inr s3 \<Rightarrow> Inr (s3, i2\<lparr>confirm := False\<rparr>))
         else Inr (s2, i2))"

text \<open>
  \<^verbatim>\<open>pickItemType\<close>. The three \<^verbatim>\<open>find\<close> calls are \<open>List.find\<close>. \<^verbatim>\<open>Math.random()\<close> is called
  for the bomb only when \<^verbatim>\<open>bombChance > 0\<close> and for the rare item only when one was found
  (\<^verbatim>\<open>&&\<close> evaluates its right side on demand). \<^verbatim>\<open>return bomb!\<close> is reached only with a bomb
  found, since \<^verbatim>\<open>bombChance\<close> stays \<open>0\<close> otherwise.
\<close>

definition bombChanceAt :: "ItemTypeConfig option \<Rightarrow> real \<Rightarrow> BombTime \<Rightarrow> real" where
  "bombChanceAt bomb t lastBomb =
     (let bombCooldown = 1.2
      in if bomb \<noteq> None \<and> t \<ge> 5 then
           (let ramp = min 1 ((t - 5) / 45);
                c = 0.03 + ramp * (0.09 - 0.03);
                c = min 0.09 (max 0 c)
            in if (case lastBomb of NegInfinity \<Rightarrow> False | BombAt lb \<Rightarrow> t - lb < bombCooldown)
               then 0 else c)
         else 0)"

text \<open>The base and rare item of the selected character (the \<^verbatim>\<open>if\<close> chain on \<^verbatim>\<open>idx\<close>).\<close>

definition characterItemIds :: "int \<Rightarrow> string \<times> string option" where
  "characterItemIds idx =
     (if idx = 1 then (''itemB'', Some ''itemF'')
      else if idx = 2 then (''itemC'', Some ''itemD'')
      else if idx = 3 then (''itemG'', Some ''itemH'')
      else (''itemA'', Some ''itemE''))"

definition pickItemType :: "GameState \<Rightarrow> rng \<Rightarrow> ItemTypeConfig \<times> GameState \<times> rng" where
  "pickItemType s r =
     (let idx = selectedCharacterIndex s;
          (baseId, rareId) = characterItemIds idx;
          base = (case find (\<lambda>t. itemId t = baseId) ITEM_TYPES of
                    Some t \<Rightarrow> t
                  | None \<Rightarrow> ITEM_TYPES ! 0);
          rare = (case rareId of
                    Some i \<Rightarrow> find (\<lambda>t. itemId t = i) ITEM_TYPES
                  | None \<Rightarrow> None);
          bomb = find (\<lambda>t. itemId t = ''bomb'' \<and> hazardous t) ITEM_TYPES;
          t = elapsedTime s;
          bombChance = bombChanceAt bomb t (lastBombTime s);
          (hit, r1) =
            (if bombChance > 0
             then (let (u, r') = random r in (u < bombChance, r'))
             else (False, r))
      in case (bomb, hit) of
           (Some b, True) \<Rightarrow> (b, s\<lparr>lastBombTime := BombAt t\<rparr>, r1)
         | _ \<Rightarrow>
             (case rare of
                Some ra \<Rightarrow>
                  (let (u, r2) = random r1
                   in if u < RARE_ITEM_CHANCE then (ra, s, r2) else (base, s, r2))
              | None \<Rightarrow> (base, s, r1)))"

text \<open>The first lines of \<^verbatim>\<open>updatePlaying\<close>: the player moves and is kept on the field.\<close>

definition movePlayer :: "InputState \<Rightarrow> real \<Rightarrow> Player \<Rightarrow> Player" where
  "movePlayer inp dt p =
     (let dir = 0;
          dir = (if left inp then dir - 1 else dir);
          dir = (if right inp then dir + 1 else dir);
          x1 = xpos p + dir * speed p * dt
      in p\<lparr>xpos := max 0 (min (GAME_CONFIG_width - width p) x1)\<rparr>)"

text \<open>
  The spawn scheduler of \<^verbatim>\<open>updatePlaying\<close>. \<open>spawnBody\<close> is the body of its \<^verbatim>\<open>while\<close> loop
  (but for the counter), \<open>spawnLoop\<close> the loop; \<open>n\<close> is \<^verbatim>\<open>spawnsThisFrame\<close>. The interval
  \<^verbatim>\<open>Infinity\<close> is \<open>None\<close>, and no accumulator reaches it.
\<close>

definition spawnBody :: "real \<Rightarrow> Difficulty \<Rightarrow> GameState \<Rightarrow> rng \<Rightarrow> GameState \<times> rng" where
  "spawnBody iv diff s r =
     (let s1 = s\<lparr>spawnAccumulator := spawnAccumulator s - iv\<rparr>;
          (ty, s2, r1) = pickItemType s1 r;
          (item, r2) = createFallingItem ty GAME_CONFIG_width (Some (lastSpawnX s2)) r1;
          item = item\<lparr>vy := vy item * speedMultiplier diff\<rparr>;
          s3 = s2\<lparr>items := items s2 @ [item]\<rparr>;
          s4 = s3\<lparr>lastSpawnX := xpos item\<rparr>
      in (s4, r2))"

function spawnLoop ::
    "real option \<Rightarrow> Difficulty \<Rightarrow> nat \<Rightarrow> GameState \<Rightarrow> rng \<Rightarrow> GameState \<times> rng" where
  "spawnLoop spawnInterval diff n s r =
     (case spawnInterval of
        None \<Rightarrow> (s, r)
      | Some iv \<Rightarrow>
          (if spawnAccumulator s \<ge> iv \<and> n < MAX_SPAWNS_PER_FRAME
           then (case spawnBody iv diff s r of
                   (s', r') \<Rightarrow> spawnLoop spawnInterval diff (n + 1) s' r')
           else (s, r)))"
  by pat_completeness auto
termination
  by (relation "measure (\<lambda>(spawnInterval, diff, n, s, r). MAX_SPAWNS_PER_FRAME - n)") auto

declare spawnLoop.simps [simp del]

text \<open>
  The \<^verbatim>\<open>for\<close> loop over the items. \<open>rem\<close> is the array \<^verbatim>\<open>remaining\<close>; a \<^verbatim>\<open>break\<close> returns at
  once, a \<^verbatim>\<open>continue\<close> goes on with the rest.
\<close>

fun itemLoop ::
    "Player \<Rightarrow> real \<Rightarrow> real \<Rightarrow> FallingItem list \<Rightarrow> GameState \<Rightarrow> FallingItem list
     \<Rightarrow> GameState \<times> FallingItem list" where
  "itemLoop p dt groundY [] s rem = (s, rem)"
| "itemLoop p dt groundY (item0 # rest) s rem =
     (let item = item0\<lparr>ypos := ypos item0 + vy item0 * dt\<rparr>
      in if aabbIntersect p item then
           (if hazardous (itemType item)
            then (s\<lparr>lives := 0, screen := GameOver\<rparr>, rem)
            else itemLoop p dt groundY rest
                   (s\<lparr>score := score s + scoreValue (itemType item)\<rparr>) rem)
         else if ypos item + height item \<ge> groundY then
           (if \<not> hazardous (itemType item) then
              (let s1 = s\<lparr>lives := lives s - 1\<rparr>;
                   s2 = s1\<lparr>missEffects := missEffects s1 @
                          [\<lparr>fxX = xpos item + width item / 2, fxY = groundY - 5,
                            radius = max (width item) (height item) * 0.6,
                            timer = 0.3, maxTimer = 0.3\<rparr>]\<rparr>
               in if lives s2 \<le> 0
                  then (s2\<lparr>screen := GameOver\<rparr>, rem)
                  else itemLoop p dt groundY rest s2 rem)
            else itemLoop p dt groundY rest s rem)
         else itemLoop p dt groundY rest s (rem @ [item]))"

definition updatePlaying :: "GameRuntime \<Rightarrow> real \<Rightarrow> rng \<Rightarrow> GameRuntime \<times> rng" where
  "updatePlaying rt dt r =
     (case player (state rt) of
        None \<Rightarrow> (rt, r)
      | Some p0 \<Rightarrow>
          (let p = movePlayer (input rt) dt p0;
               s1 = (state rt)\<lparr>player := Some p\<rparr>;
               s1 = s1\<lparr>elapsedTime := elapsedTime s1 + dt\<rparr>;
               diff = getDifficulty (elapsedTime s1);
               spawnInterval = (if spawnRate diff > 0 then Some (1 / spawnRate diff) else None);
               s2 = s1\<lparr>spawnAccumulator := spawnAccumulator s1 + dt\<rparr>;
               (s3, r') = spawnLoop spawnInterval diff 0 s2 r;
               groundY = GAME_CONFIG_height - 10;
               (s4, remaining) = itemLoop p dt groundY (items s3) s3 [];
               s5 = s4\<lparr>items := remaining\<rparr>;
               s6 = s5\<lparr>missEffects :=
                      filter (\<lambda>fx. timer fx > 0)
                        (map (\<lambda>fx. fx\<lparr>timer := timer fx - dt\<rparr>) (missEffects s5))\<rparr>
           in (rt\<lparr>state := s6, spawnRateDebug := spawnRate diff\<rparr>, r')))"

definition updateGameOver :: "GameState \<Rightarrow> InputState \<Rightarrow> error + GameState \<times> InputState" where
  "updateGameOver s inp =
     (if restart inp then
        (case beginPlay s of
           Inl e \<Rightarrow> Inl e
         | Inr s' \<Rightarrow> Inr (s', inp\<lparr>restart := False\<rparr>))
      else if backKey inp then
        (let idx = selectedCharacterIndex s;
             s' = createInitialState;
             s' = s'\<lparr>selectedCharacterIndex := idx\<rparr>
         in Inr (s', inp\<lparr>backKey := False\<rparr>))
      else Inr (s, inp))"

definition update :: "GameRuntime \<Rightarrow> real \<Rightarrow> rng \<Rightarrow> error + GameRuntime \<times> rng" where
  "update rt dt r =
     (case screen (state rt) of
        Start \<Rightarrow> Inr (rt, r)
      | CharacterSelect \<Rightarrow>
          (case updateCharacterSelect (state rt) (input rt) dt of
             Inl e \<Rightarrow> Inl e
           | Inr (s, i) \<Rightarrow> Inr (rt\<lparr>state := s, input := i\<rparr>, r))
      | Playing \<Rightarrow> Inr (updatePlaying rt dt r)
      | GameOver \<Rightarrow>
          (case updateGameOver (state rt) (input rt) of
             Inl e \<Rightarrow> Inl e
           | Inr (s, i) \<Rightarrow> Inr (rt\<lparr>state := s, input := i\<rparr>, r)))"

text \<open>\<^verbatim>\<open>setScreen\<close>, on the runtime (its only callers pass the runtime).\<close>

definition setScreen :: "GameRuntime \<Rightarrow> GameScreen \<Rightarrow> GameRuntime" where
  "setScreen rt sc = rt\<lparr>state := (state rt)\<lparr>screen := sc\<rparr>\<rparr>"

definition selectCharacter :: "GameState \<Rightarrow> int \<Rightarrow> GameState" where
  "selectCharacter s index =
     (if index \<ge> 0 \<and> index < int (length CHARACTERS)
      then s\<lparr>selectedCharacterIndex := index\<rparr>
      else s)"

text \<open>The five callbacks that \<^verbatim>\<open>startGame\<close> hands to the page's buttons.\<close>

datatype UiAction =
  OnStart | OnSelectCharacter int | OnStartGame | OnRestart | OnBackToCharacterSelect

fun uiAction :: "UiAction \<Rightarrow> GameRuntime \<Rightarrow> error + GameRuntime" where
  "uiAction OnStart rt = Inr (setScreen rt CharacterSelect)"
| "uiAction (OnSelectCharacter index) rt = Inr (rt\<lparr>state := selectCharacter (state rt) index\<rparr>)"
| "uiAction OnStartGame rt =
     (case beginPlay (state rt) of Inl e \<Rightarrow> Inl e | Inr s \<Rightarrow> Inr (rt\<lparr>state := s\<rparr>))"
| "uiAction OnRestart rt =
     (case beginPlay (state rt) of Inl e \<Rightarrow> Inl e | Inr s \<Rightarrow> Inr (rt\<lparr>state := s\<rparr>))"
| "uiAction OnBackToCharacterSelect rt = Inr (setScreen rt CharacterSelect)"

text \<open>
  The runtimes the program can be in: it starts from \<^verbatim>\<open>createInitialState()\<close> and
  \<^verbatim>\<open>createInputState()\<close>; key events set and clear the input flags; a frame runs
  \<^verbatim>\<open>update\<close> with some \<open>dt\<close> and some random draws; a click runs one of the callbacks.
\<close>

inductive reachable :: "GameRuntime \<Rightarrow> bool" where
  r_init: "reachable \<lparr>state = createInitialState, input = createInputState, spawnRateDebug = 0\<rparr>"
| r_keys: "reachable rt \<Longrightarrow> reachable (rt\<lparr>input := i\<rparr>)"
| r_frame: "reachable rt \<Longrightarrow> update rt dt r = Inr (rt', r') \<Longrightarrow> reachable rt'"
| r_click: "reachable rt \<Longrightarrow> uiAction a rt = Inr rt' \<Longrightarrow> reachable rt'"

subsection \<open>Predicates and sample data of the properties\<close>

text \<open>The selected character is an index into the catalog.\<close>

definition validIndex :: "GameState \<Rightarrow> bool" where
  "validIndex s =
     (0 \<le> selectedCharacterIndex s \<and> selectedCharacterIndex s < int (length CHARACTERS))"

definition sessionInv :: "GameState \<Rightarrow> bool" where
  "sessionInv s = (0 \<le> lives s \<and> (screen s = Playing \<longrightarrow> 1 \<le> lives s) \<and> validIndex s)"

text \<open>
  The branch of the item loop that costs a life: after its move the item does not overlap
  the player, has reached the ground line and is not a hazard.
\<close>

definition missed :: "Player \<Rightarrow> real \<Rightarrow> real \<Rightarrow> FallingItem \<Rightarrow> bool" where
  "missed p dt groundY item0 =
     (let item = item0\<lparr>ypos := ypos item0 + vy item0 * dt\<rparr>
      in \<not> aabbIntersect p item \<and> ypos item + height item \<ge> groundY
         \<and> \<not> hazardous (itemType item))"

text \<open>The state of a result, when there is one.\<close>

definition stateOf :: "error + GameState \<times> InputState \<Rightarrow> GameState option" where
  "stateOf res = (case res of Inl e \<Rightarrow> None | Inr (s, i) \<Rightarrow> Some s)"

text \<open>A finished round of the third character, and the runtime right after \<^verbatim>\<open>beginPlay\<close>.\<close>

definition gameOverSample :: GameState where
  "gameOverSample =
     createInitialState\<lparr>screen := GameOver, selectedCharacterIndex := 2, score := 17,
       lives := 0, elapsedTime := 41, spawnAccumulator := 0.25,
       lastBombTime := BombAt 40, lastSpawnX := 120\<rparr>"

definition startedState :: GameState where
  "startedState =
     \<lparr>screen = Playing,
      player = Some \<lparr>xpos = 325, ypos = 396, width = 50, height = 100, speed = 300,
                     color = ''#4fd1c5'', character = CHARACTERS ! 0\<rparr>,
      selectedCharacterIndex = 0, score = 0, lives = 3, elapsedTime = 0, spawnAccumulator = 0,
      items = [], missEffects = [], lastBombTime = NegInfinity, lastSpawnX = 350\<rparr>"

definition startedRuntime :: GameRuntime where
  "startedRuntime = \<lparr>state = startedState, input = createInputState, spawnRateDebug = 0\<rparr>"

text \<open>Draws: \<open>0.01\<close> first, then always \<open>0.5\<close>.\<close>

definition demoDraws :: rng where
  "demoDraws = (\<lambda>n. if n = 0 then 0.01 else 0.5)"

text \<open>
  A round with three items: one in mid-air, a bomb on the player, and an item at the
  ground line that would cost a life.
\<close>

definition midAirItem :: FallingItem where
  "midAirItem = \<lparr>xpos = 100, ypos = 50, width = 32, height = 32, vy = 70,
                  itemType = ITEM_TYPES ! 0\<rparr>"

definition bombOnPlayer :: FallingItem where
  "bombOnPlayer = \<lparr>xpos = 334, ypos = 380, width = 32, height = 32, vy = 75,
                    itemType = ITEM_TYPES ! 8\<rparr>"

definition groundItem :: FallingItem where
  "groundItem = \<lparr>xpos = 600, ypos = 470, width = 32, height = 32, vy = 70,
                  itemType = ITEM_TYPES ! 0\<rparr>"

definition hazardRuntime :: GameRuntime where
  "hazardRuntime =
     startedRuntime\<lparr>state := startedState\<lparr>elapsedTime := 20,
       items := [midAirItem, bombOnPlayer, groundItem]\<rparr>\<rparr>"

section \<open>Auxiliary facts\<close>

subsection \<open>What the loops of the frame update change\<close>

text \<open>
  \<^verbatim>\<open>pickItemType\<close> and the spawn loop never read the item collection: they append to it and
  touch the spawn accumulator, the bomb time and the last spawn position only.
\<close>

lemma pickItemType_frame:
  "\<exists>ty lb r'. \<forall>X. pickItemType (s\<lparr>items := X\<rparr>) r = (ty, s\<lparr>items := X, lastBombTime := lb\<rparr>, r')"
proof -
  have "\<forall>X. pickItemType (s\<lparr>items := X\<rparr>) r =
      (fst (pickItemType s r),
       s\<lparr>items := X, lastBombTime := lastBombTime (fst (snd (pickItemType s r)))\<rparr>,
       snd (snd (pickItemType s r)))"
    unfolding pickItemType_def Let_def case_prod_beta
    by (simp split: option.split bool.split)
  then show ?thesis by blast
qed

lemma spawnBody_frame:
  "\<exists>it lb r'. \<forall>X. spawnBody iv d (s\<lparr>items := X\<rparr>) r =
     (s\<lparr>spawnAccumulator := spawnAccumulator s - iv, lastBombTime := lb,
        items := X @ [it], lastSpawnX := xpos it\<rparr>, r')"
proof -
  let ?s1 = "s\<lparr>spawnAccumulator := spawnAccumulator s - iv\<rparr>"
  from pickItemType_frame[of ?s1 r] obtain ty lb r1 where
    p: "\<And>X. pickItemType (?s1\<lparr>items := X\<rparr>) r = (ty, ?s1\<lparr>items := X, lastBombTime := lb\<rparr>, r1)"
    by blast
  obtain it r2 where c: "createFallingItem ty GAME_CONFIG_width (Some (lastSpawnX s)) r1 = (it, r2)"
    by (cases "createFallingItem ty GAME_CONFIG_width (Some (lastSpawnX s)) r1") auto
  have "\<forall>X. spawnBody iv d (s\<lparr>items := X\<rparr>) r =
     (s\<lparr>spawnAccumulator := spawnAccumulator s - iv, lastBombTime := lb,
        items := X @ [it\<lparr>vy := vy it * speedMultiplier d\<rparr>],
        lastSpawnX := xpos (it\<lparr>vy := vy it * speedMultiplier d\<rparr>)\<rparr>, r2)"
  proof
    fix X
    have "s\<lparr>items := X, spawnAccumulator := spawnAccumulator s - iv\<rparr> = ?s1\<lparr>items := X\<rparr>"
      by simp
    then show "spawnBody iv d (s\<lparr>items := X\<rparr>) r =
     (s\<lparr>spawnAccumulator := spawnAccumulator s - iv, lastBombTime := lb,
        items := X @ [it\<lparr>vy := vy it * speedMultiplier d\<rparr>],
        lastSpawnX := xpos (it\<lparr>vy := vy it * speedMultiplier d\<rparr>)\<rparr>, r2)"
      using p[of X] c by (cases s) (simp add: spawnBody_def)
  qed
  then show ?thesis by blast
qed

lemma spawnLoop_frame:
  "\<exists>new acc lb lx r'. length new \<le> MAX_SPAWNS_PER_FRAME - n \<and>
     (\<forall>X. spawnLoop iv d n (s\<lparr>items := X\<rparr>) r =
        (s\<lparr>spawnAccumulator := acc, lastBombTime := lb, lastSpawnX := lx, items := X @ new\<rparr>, r'))"
proof (induction iv d n s r rule: spawnLoop.induct)
  case (1 spawnInterval diff n s r)
  have stop: "\<exists>new acc lb lx r'. length new \<le> MAX_SPAWNS_PER_FRAME - n \<and>
     (\<forall>X. spawnLoop spawnInterval diff n (s\<lparr>items := X\<rparr>) r =
        (s\<lparr>spawnAccumulator := acc, lastBombTime := lb, lastSpawnX := lx, items := X @ new\<rparr>, r'))"
    if "\<And>X. spawnLoop spawnInterval diff n (s\<lparr>items := X\<rparr>) r = (s\<lparr>items := X\<rparr>, r)"
  proof -
    have "\<forall>X. spawnLoop spawnInterval diff n (s\<lparr>items := X\<rparr>) r =
        (s\<lparr>spawnAccumulator := spawnAccumulator s, lastBombTime := lastBombTime s,
           lastSpawnX := lastSpawnX s, items := X @ []\<rparr>, r)"
      using that by simp
    moreover have "length ([] :: FallingItem list) \<le> MAX_SPAWNS_PER_FRAME - n"
      by simp
    ultimately show ?thesis by blast
  qed
  show ?case
  proof (cases spawnInterval)
    case None
    then show ?thesis by (intro stop) (simp add: spawnLoop.simps)
  next
    case (Some iv)
    show ?thesis
    proof (cases "spawnAccumulator s \<ge> iv \<and> n < MAX_SPAWNS_PER_FRAME")
      case False
      with Some show ?thesis by (intro stop) (auto simp add: spawnLoop.simps)
    next
      case True
      from spawnBody_frame[of iv diff s r] obtain it lb r1 where
        b: "\<And>X. spawnBody iv diff (s\<lparr>items := X\<rparr>) r =
          (s\<lparr>spawnAccumulator := spawnAccumulator s - iv, lastBombTime := lb,
             items := X @ [it], lastSpawnX := xpos it\<rparr>, r1)" by blast
      let ?s' = "s\<lparr>spawnAccumulator := spawnAccumulator s - iv, lastBombTime := lb,
             items := items s @ [it], lastSpawnX := xpos it\<rparr>"
      have b0: "spawnBody iv diff s r = (?s', r1)"
        using b[of "items s"] by simp
      from "1.IH"[OF Some True b0[symmetric]] obtain new acc lb' lx r' where
        len: "length new \<le> MAX_SPAWNS_PER_FRAME - (n + 1)" and
        ih: "\<And>X. spawnLoop spawnInterval diff (n + 1) (?s'\<lparr>items := X\<rparr>) r1 =
           (?s'\<lparr>spawnAccumulator := acc, lastBombTime := lb', lastSpawnX := lx, items := X @ new\<rparr>, r')"
        by blast
      have "\<forall>X. spawnLoop spawnInterval diff n (s\<lparr>items := X\<rparr>) r =
          (s\<lparr>spawnAccumulator := acc, lastBombTime := lb', lastSpawnX := lx, items := X @ (it # new)\<rparr>, r')"
      proof
        fix X
        have "spawnLoop spawnInterval diff n (s\<lparr>items := X\<rparr>) r =
            spawnLoop spawnInterval diff (n + 1) (?s'\<lparr>items := X @ [it]\<rparr>) r1"
          using Some True b[of X] by (subst spawnLoop.simps, cases s) simp
        also have "\<dots> = (?s'\<lparr>spawnAccumulator := acc, lastBombTime := lb', lastSpawnX := lx, items := (X @ [it]) @ new\<rparr>, r')"
          by (rule ih)
        finally show "spawnLoop spawnInterval diff n (s\<lparr>items := X\<rparr>) r =
          (s\<lparr>spawnAccumulator := acc, lastBombTime := lb', lastSpawnX := lx, items := X @ (it # new)\<rparr>, r')"
          by simp
      qed
      moreover have "length (it # new) \<le> MAX_SPAWNS_PER_FRAME - n"
        using len True by auto
      ultimately show ?thesis by blast
    qed
  qed
qed

text \<open>
  The item loop: it does not read the state's item array (it walks the list it was given),
  it stops at a hazard on the player, and it leaves a round of at least one life either
  running with at least one life or over with none.
\<close>

lemma itemLoop_items_irrelevant:
  "itemLoop p dt g xs (s\<lparr>items := X\<rparr>) rem =
     (case itemLoop p dt g xs s rem of (s', rem') \<Rightarrow> (s'\<lparr>items := X\<rparr>, rem'))"
proof (induction xs arbitrary: s rem)
  case Nil
  show ?case by simp
next
  case (Cons item0 rest)
  have sw: "\<And>t f. (t\<lparr>items := X\<rparr>)\<lparr>score := f\<rparr> = (t\<lparr>score := f\<rparr>)\<lparr>items := X\<rparr>"
    "\<And>t f m. t\<lparr>items := X, lives := f, missEffects := m\<rparr> = (t\<lparr>lives := f, missEffects := m\<rparr>)\<lparr>items := X\<rparr>"
    by simp_all
  show ?case
    by (simp add: Let_def sw Cons.IH del: GameState.simps)
qed

lemma itemLoop_hazard_cut:
  assumes "hazardous (itemType h)"
    and "aabbIntersect p (h\<lparr>ypos := ypos h + vy h * dt\<rparr>)"
  shows "itemLoop p dt g (pre @ h # post) s rem = itemLoop p dt g (pre @ [h]) s rem"
  using assms
  by (induction pre arbitrary: s rem) (simp_all add: Let_def)

lemma itemLoop_lives:
  assumes "1 \<le> lives s" and "itemLoop p dt g xs s rem = (s', rem')"
  shows "selectedCharacterIndex s' = selectedCharacterIndex s \<and> player s' = player s \<and>
    ((screen s' = screen s \<and> 1 \<le> lives s') \<or> (screen s' = GameOver \<and> lives s' = 0))"
  using assms
proof (induction xs arbitrary: s rem)
  case Nil
  then show ?case by auto
next
  case (Cons item0 rest)
  let ?item = "item0\<lparr>ypos := ypos item0 + vy item0 * dt\<rparr>"
  consider (hit) "aabbIntersect p ?item" "hazardous (itemType item0)"
    | (catch) "aabbIntersect p ?item" "\<not> hazardous (itemType item0)"
    | (miss) "\<not> aabbIntersect p ?item" "ypos ?item + height ?item \<ge> g" "\<not> hazardous (itemType item0)"
    | (harmless) "\<not> aabbIntersect p ?item" "ypos ?item + height ?item \<ge> g" "hazardous (itemType item0)"
    | (stay) "\<not> aabbIntersect p ?item" "\<not> ypos ?item + height ?item \<ge> g"
    by blast
  then show ?case
  proof cases
    case hit
    with Cons.prems show ?thesis by (auto simp: Let_def)
  next
    case catch
    with Cons.prems Cons.IH[of "s\<lparr>score := score s + scoreValue (itemType item0)\<rparr>" rem]
    show ?thesis by (simp add: Let_def)
  next
    case miss
    let ?s2 = "s\<lparr>lives := lives s - 1, missEffects := missEffects s @
                          [\<lparr>fxX = xpos ?item + width ?item / 2, fxY = g - 5,
                            radius = max (width ?item) (height ?item) * 0.6,
                            timer = 0.3, maxTimer = 0.3\<rparr>]\<rparr>"
    show ?thesis
    proof (cases "lives s - 1 \<le> 0")
      case True
      with miss Cons.prems show ?thesis by (auto simp: Let_def)
    next
      case False
      with miss Cons.prems Cons.IH[of ?s2 rem] show ?thesis by (simp add: Let_def)
    qed
  next
    case harmless
    with Cons.prems Cons.IH[of s rem] show ?thesis by (simp add: Let_def)
  next
    case stay
    with Cons.prems Cons.IH[of s "rem @ [?item]"] show ?thesis by (simp add: Let_def)
  qed
qed

lemma itemLoop_length:
  "length (snd (itemLoop p dt g xs s rem)) \<le> length rem + length xs"
proof (induction xs arbitrary: s rem)
  case Nil
  show ?case by simp
next
  case (Cons item0 rest)
  show ?case
    using Cons.IH[of "s\<lparr>score := score s + scoreValue (itemType item0)\<rparr>" rem]
      Cons.IH[of s rem] Cons.IH[of s "rem @ [item0\<lparr>ypos := ypos item0 + vy item0 * dt\<rparr>]"]
      Cons.IH[of "s\<lparr>lives := lives s - 1, missEffects := missEffects s @
                          [\<lparr>fxX = xpos item0 + width item0 / 2, fxY = g - 5,
                            radius = max (width item0) (height item0) * 0.6,
                            timer = 0.3, maxTimer = 0.3\<rparr>]\<rparr>" rem]
    by (simp add: Let_def)
qed


lemma itemLoop_hazard_ends:
  assumes "hazardous (itemType h)"
    and "aabbIntersect p (h\<lparr>ypos := ypos h + vy h * dt\<rparr>)"
    and "1 \<le> lives s"
  shows "lives (fst (itemLoop p dt g (pre @ h # post) s rem)) = 0
       \<and> screen (fst (itemLoop p dt g (pre @ h # post) s rem)) = GameOver"
  using assms(3)
proof (induction pre arbitrary: s rem)
  case Nil
  show ?case using assms(1,2) by (simp add: Let_def)
next
  case (Cons item0 rest)
  let ?item = "item0\<lparr>ypos := ypos item0 + vy item0 * dt\<rparr>"
  let ?s2 = "s\<lparr>lives := lives s - 1, missEffects := missEffects s @
                          [\<lparr>fxX = xpos ?item + width ?item / 2, fxY = g - 5,
                            radius = max (width ?item) (height ?item) * 0.6,
                            timer = 0.3, maxTimer = 0.3\<rparr>]\<rparr>"
  have a: "1 \<le> lives (s\<lparr>score := score s + scoreValue (itemType item0)\<rparr>)"
    using Cons.prems by simp
  have b: "\<not> lives s - 1 \<le> 0 \<Longrightarrow> 1 \<le> lives ?s2"
    by simp
  show ?case
    using Cons.IH[OF a, of rem] Cons.IH[OF b, of rem] Cons.IH[OF Cons.prems, of rem]
      Cons.IH[OF Cons.prems, of "rem @ [?item]"] Cons.prems
    by (simp add: Let_def)
qed

lemma itemLoop_hazard_reached:
  assumes "hazardous (itemType h)"
    and "aabbIntersect p (h\<lparr>ypos := ypos h + vy h * dt\<rparr>)"
    and "\<forall>i \<in> set pre. \<not> missed p dt g i"
  shows "lives (fst (itemLoop p dt g (pre @ h # post) s rem)) = 0
       \<and> screen (fst (itemLoop p dt g (pre @ h # post) s rem)) = GameOver"
  using assms(3)
proof (induction pre arbitrary: s rem)
  case Nil
  show ?case using assms(1,2) by (simp add: Let_def)
next
  case (Cons item0 rest)
  then have r: "\<forall>i \<in> set rest. \<not> missed p dt g i" and m: "\<not> missed p dt g item0"
    by simp_all
  show ?case
    using Cons.IH[OF r] m
    by (auto simp: Let_def missed_def)
qed


lemma itemLoop_index:
  "selectedCharacterIndex (fst (itemLoop p dt g xs s rem)) = selectedCharacterIndex s"
proof (induction xs arbitrary: s rem)
  case Nil
  show ?case by simp
next
  case (Cons item0 rest)
  show ?case
    by (simp add: Let_def Cons.IH)
qed

text \<open>\<^verbatim>\<open>updatePlaying\<close> as the composition of its loops.\<close>

lemma updatePlaying_no_player:
  "player (state rt) = None \<Longrightarrow> updatePlaying rt dt r = (rt, r)"
  by (simp add: updatePlaying_def)

lemma updatePlaying_decompose:
  assumes "player (state rt) = Some p0"
  shows "\<exists>s3 r' s4 rem.
     spawnLoop (if spawnRate (getDifficulty (elapsedTime (state rt) + dt)) > 0
                then Some (1 / spawnRate (getDifficulty (elapsedTime (state rt) + dt))) else None)
       (getDifficulty (elapsedTime (state rt) + dt)) 0
       ((state rt)\<lparr>player := Some (movePlayer (input rt) dt p0),
                   elapsedTime := elapsedTime (state rt) + dt,
                   spawnAccumulator := spawnAccumulator (state rt) + dt\<rparr>) r = (s3, r') \<and>
     itemLoop (movePlayer (input rt) dt p0) dt (GAME_CONFIG_height - 10) (items s3) s3 [] = (s4, rem) \<and>
     updatePlaying rt dt r =
       (rt\<lparr>state := s4\<lparr>items := rem,
                missEffects := filter (\<lambda>fx. timer fx > 0)
                  (map (\<lambda>fx. fx\<lparr>timer := timer fx - dt\<rparr>) (missEffects s4))\<rparr>,
            spawnRateDebug := spawnRate (getDifficulty (elapsedTime (state rt) + dt))\<rparr>, r')"
proof -
  let ?d = "getDifficulty (elapsedTime (state rt) + dt)"
  let ?iv = "if spawnRate ?d > 0 then Some (1 / spawnRate ?d) else None"
  let ?p = "movePlayer (input rt) dt p0"
  let ?s2 = "(state rt)\<lparr>player := Some ?p, elapsedTime := elapsedTime (state rt) + dt,
                   spawnAccumulator := spawnAccumulator (state rt) + dt\<rparr>"
  obtain s3 r' where sp: "spawnLoop ?iv ?d 0 ?s2 r = (s3, r')"
    by (cases "spawnLoop ?iv ?d 0 ?s2 r") auto
  obtain s4 rem where il: "itemLoop ?p dt (GAME_CONFIG_height - 10) (items s3) s3 [] = (s4, rem)"
    by (cases "itemLoop ?p dt (GAME_CONFIG_height - 10) (items s3) s3 []") auto
  have "updatePlaying rt dt r =
       (rt\<lparr>state := s4\<lparr>items := rem,
                missEffects := filter (\<lambda>fx. timer fx > 0)
                  (map (\<lambda>fx. fx\<lparr>timer := timer fx - dt\<rparr>) (missEffects s4))\<rparr>,
            spawnRateDebug := spawnRate ?d\<rparr>, r')"
    using assms sp il by (cases "spawnRate ?d > 0") (simp_all add: updatePlaying_def Let_def)
  with sp il show ?thesis by blast
qed

subsection \<open>The session invariant\<close>

lemma jsRemainder_mod: "0 \<le> a \<Longrightarrow> jsRemainder a n = a mod \<bar>n\<bar>"
  by (cases "a = 0") (auto simp: jsRemainder_def sgn_if)

lemma length_CHARACTERS: "int (length CHARACTERS) = 4"
  by (simp add: CHARACTERS_def)

lemma beginPlay_valid:
  assumes "validIndex s"
  shows "\<exists>p. beginPlay s = Inr (s\<lparr>player := Some p, screen := Playing, score := 0,
                    lives := GAME_CONFIG_initialLives, elapsedTime := 0,
                    spawnAccumulator := 0, items := [], missEffects := [],
                    lastBombTime := NegInfinity, lastSpawnX := GAME_CONFIG_width / 2\<rparr>)"
  using assms by (auto simp: beginPlay_def characterAt_def createPlayer_def validIndex_def)

lemma beginPlay_inv:
  assumes "validIndex s"
  shows "\<exists>s'. beginPlay s = Inr s' \<and> sessionInv s' \<and> lives s' = 3 \<and> screen s' = Playing
     \<and> selectedCharacterIndex s' = selectedCharacterIndex s"
proof -
  from beginPlay_valid[OF assms] obtain p where
    "beginPlay s = Inr (s\<lparr>player := Some p, screen := Playing, score := 0,
                    lives := GAME_CONFIG_initialLives, elapsedTime := 0,
                    spawnAccumulator := 0, items := [], missEffects := [],
                    lastBombTime := NegInfinity, lastSpawnX := GAME_CONFIG_width / 2\<rparr>)" ..
  then show ?thesis
    using assms by (simp add: sessionInv_def validIndex_def GAME_CONFIG_initialLives_def)
qed

lemma cycle_valid:
  assumes "validIndex s"
  shows "validIndex (s\<lparr>selectedCharacterIndex :=
            jsRemainder (selectedCharacterIndex s - 1 + int (length CHARACTERS)) (int (length CHARACTERS))\<rparr>)"
    and "validIndex (s\<lparr>selectedCharacterIndex :=
            jsRemainder (selectedCharacterIndex s + 1) (int (length CHARACTERS))\<rparr>)"
  using assms by (simp_all add: validIndex_def jsRemainder_mod length_CHARACTERS)

lemma cycle_wraps:
  assumes "validIndex s"
  shows "jsRemainder (selectedCharacterIndex s - 1 + int (length CHARACTERS)) (int (length CHARACTERS))
           = (selectedCharacterIndex s - 1) mod int (length CHARACTERS)"
    and "jsRemainder (selectedCharacterIndex s + 1) (int (length CHARACTERS))
           = (selectedCharacterIndex s + 1) mod int (length CHARACTERS)"
  using assms by (simp_all add: validIndex_def jsRemainder_mod length_CHARACTERS) presburger

lemma updateCharacterSelect_result:
  assumes "validIndex s"
  shows "\<exists>s' i'. updateCharacterSelect s i dt = Inr (s', i') \<and> validIndex s'
     \<and> ((lives s' = lives s \<and> screen s' = screen s) \<or> (lives s' = 3 \<and> screen s' = Playing))
     \<and> selectedCharacterIndex s' =
          (if right i
           then jsRemainder
                  ((if left i
                    then jsRemainder (selectedCharacterIndex s - 1 + int (length CHARACTERS))
                           (int (length CHARACTERS))
                    else selectedCharacterIndex s) + 1) (int (length CHARACTERS))
           else if left i
                then jsRemainder (selectedCharacterIndex s - 1 + int (length CHARACTERS))
                       (int (length CHARACTERS))
                else selectedCharacterIndex s)"
proof -
  define s1 where "s1 = (if left i then s\<lparr>selectedCharacterIndex :=
            jsRemainder (selectedCharacterIndex s - 1 + int (length CHARACTERS)) (int (length CHARACTERS))\<rparr> else s)"
  define s2 where "s2 = (if right i then s1\<lparr>selectedCharacterIndex :=
            jsRemainder (selectedCharacterIndex s1 + 1) (int (length CHARACTERS))\<rparr> else s1)"
  define i1 where "i1 = (if left i then i\<lparr>left := False\<rparr> else i)"
  define i2 where "i2 = (if right i1 then i1\<lparr>right := False\<rparr> else i1)"
  have v1: "validIndex s1" using assms cycle_valid(1)[OF assms] by (simp add: s1_def)
  have v2: "validIndex s2" using v1 cycle_valid(2)[OF v1] by (simp add: s2_def)
  have f2: "lives s2 = lives s" "screen s2 = screen s"
    by (simp_all add: s2_def s1_def)
  have x2: "selectedCharacterIndex s2 =
          (if right i
           then jsRemainder
                  ((if left i
                    then jsRemainder (selectedCharacterIndex s - 1 + int (length CHARACTERS))
                           (int (length CHARACTERS))
                    else selectedCharacterIndex s) + 1) (int (length CHARACTERS))
           else if left i
                then jsRemainder (selectedCharacterIndex s - 1 + int (length CHARACTERS))
                       (int (length CHARACTERS))
                else selectedCharacterIndex s)"
    by (simp add: s2_def s1_def)
  have eq: "updateCharacterSelect s i dt =
      (if confirm i then (case beginPlay s2 of Inl e \<Rightarrow> Inl e
          | Inr s3 \<Rightarrow> Inr (s3, i2\<lparr>confirm := False\<rparr>))
       else Inr (s2, i2))"
    by (simp add: updateCharacterSelect_def Let_def s1_def s2_def i1_def i2_def cong: sum.case_cong)
  show ?thesis
  proof (cases "confirm i")
    case True
    from beginPlay_inv[OF v2] obtain s3 where
      "beginPlay s2 = Inr s3" "sessionInv s3" "lives s3 = 3" "screen s3 = Playing"
      "selectedCharacterIndex s3 = selectedCharacterIndex s2"
      by blast
    with True eq x2 show ?thesis by (simp add: sessionInv_def)
  next
    case False
    with eq v2 f2 x2 show ?thesis by simp
  qed
qed

lemma updateGameOver_result:
  assumes "validIndex s"
  shows "\<exists>s' i'. updateGameOver s i = Inr (s', i') \<and> validIndex s'
     \<and> ((lives s' = lives s \<and> screen s' = screen s) \<or> (lives s' = 3 \<and> screen s' \<noteq> GameOver))
     \<and> selectedCharacterIndex s' = selectedCharacterIndex s"
proof -
  from beginPlay_inv[OF assms] obtain s3 where
    b: "beginPlay s = Inr s3" "sessionInv s3" "lives s3 = 3" "screen s3 = Playing"
     "selectedCharacterIndex s3 = selectedCharacterIndex s"
    by blast
  show ?thesis
    using assms b
    by (auto simp: updateGameOver_def Let_def sessionInv_def validIndex_def createInitialState_def
        GAME_CONFIG_initialLives_def)
qed

lemma updatePlaying_fields:
  assumes "1 \<le> lives (state rt)"
  shows "selectedCharacterIndex (state (fst (updatePlaying rt dt r))) = selectedCharacterIndex (state rt)
    \<and> ((screen (state (fst (updatePlaying rt dt r))) = screen (state rt)
          \<and> 1 \<le> lives (state (fst (updatePlaying rt dt r))))
        \<or> (screen (state (fst (updatePlaying rt dt r))) = GameOver
          \<and> lives (state (fst (updatePlaying rt dt r))) = 0))"
proof (cases "player (state rt)")
  case None
  then show ?thesis using assms by (simp add: updatePlaying_no_player)
next
  case (Some p0)
  let ?s2 = "(state rt)\<lparr>player := Some (movePlayer (input rt) dt p0),
                   elapsedTime := elapsedTime (state rt) + dt,
                   spawnAccumulator := spawnAccumulator (state rt) + dt\<rparr>"
  from updatePlaying_decompose[OF Some, of dt r] obtain s3 r' s4 rem iv d where
    sp: "spawnLoop iv d 0 ?s2 r = (s3, r')" and
    il: "itemLoop (movePlayer (input rt) dt p0) dt (GAME_CONFIG_height - 10) (items s3) s3 [] = (s4, rem)" and
    up: "state (fst (updatePlaying rt dt r)) = s4\<lparr>items := rem,
                missEffects := filter (\<lambda>fx. timer fx > 0)
                  (map (\<lambda>fx. fx\<lparr>timer := timer fx - dt\<rparr>) (missEffects s4))\<rparr>"
    by fastforce
  from spawnLoop_frame[of 0 iv d ?s2 r] obtain new acc lb lx r'' where
    "spawnLoop iv d 0 (?s2\<lparr>items := items ?s2\<rparr>) r =
        (?s2\<lparr>spawnAccumulator := acc, lastBombTime := lb, lastSpawnX := lx, items := items ?s2 @ new\<rparr>, r'')"
    by blast
  with sp have s3: "s3 = ?s2\<lparr>spawnAccumulator := acc, lastBombTime := lb, lastSpawnX := lx, items := items ?s2 @ new\<rparr>"
    by simp
  have "1 \<le> lives s3" "screen s3 = screen (state rt)"
    "selectedCharacterIndex s3 = selectedCharacterIndex (state rt)"
    using assms by (simp_all add: s3)
  with itemLoop_lives[OF _ il] up show ?thesis by simp
qed

lemma updatePlaying_index:
  "selectedCharacterIndex (state (fst (updatePlaying rt dt r))) = selectedCharacterIndex (state rt)"
proof (cases "player (state rt)")
  case None
  then show ?thesis by (simp add: updatePlaying_no_player)
next
  case (Some p0)
  let ?s2 = "(state rt)\<lparr>player := Some (movePlayer (input rt) dt p0),
                   elapsedTime := elapsedTime (state rt) + dt,
                   spawnAccumulator := spawnAccumulator (state rt) + dt\<rparr>"
  from updatePlaying_decompose[OF Some, of dt r] obtain s3 r' s4 rem iv d where
    sp: "spawnLoop iv d 0 ?s2 r = (s3, r')" and
    il: "itemLoop (movePlayer (input rt) dt p0) dt (GAME_CONFIG_height - 10) (items s3) s3 [] = (s4, rem)" and
    up: "state (fst (updatePlaying rt dt r)) = s4\<lparr>items := rem,
                missEffects := filter (\<lambda>fx. timer fx > 0)
                  (map (\<lambda>fx. fx\<lparr>timer := timer fx - dt\<rparr>) (missEffects s4))\<rparr>"
    by fastforce
  from spawnLoop_frame[of 0 iv d ?s2 r] obtain new acc lb lx r'' where
    "spawnLoop iv d 0 (?s2\<lparr>items := items ?s2\<rparr>) r =
        (?s2\<lparr>spawnAccumulator := acc, lastBombTime := lb, lastSpawnX := lx, items := items ?s2 @ new\<rparr>, r'')"
    by blast
  with sp have s3: "s3 = ?s2\<lparr>spawnAccumulator := acc, lastBombTime := lb, lastSpawnX := lx, items := items ?s2 @ new\<rparr>"
    by simp
  have "selectedCharacterIndex s4 = selectedCharacterIndex s3"
    using itemLoop_index[of "movePlayer (input rt) dt p0" dt "GAME_CONFIG_height - 10" "items s3" s3 "[]"] il
    by simp
  then show ?thesis by (simp add: up s3)
qed

lemma reachable_inv: "reachable rt \<Longrightarrow> sessionInv (state rt)"
proof (induction rule: reachable.induct)
  case r_init
  show ?case
    by (simp add: sessionInv_def validIndex_def createInitialState_def GAME_CONFIG_initialLives_def
        CHARACTERS_def)
next
  case (r_keys rt i)
  then show ?case by simp
next
  case (r_frame rt dt r rt' r')
  show ?case
  proof (cases "screen (state rt)")
    case Start
    with r_frame show ?thesis by (simp add: update_def)
  next
    case CharacterSelect
    from r_frame.IH have v: "validIndex (state rt)" by (simp add: sessionInv_def)
    from updateCharacterSelect_result[OF v, of "input rt" dt] CharacterSelect r_frame.hyps(2) r_frame.IH
    show ?thesis by (auto simp: update_def sessionInv_def)
  next
    case Playing
    with r_frame.IH have l: "1 \<le> lives (state rt)" by (simp add: sessionInv_def)
    from Playing r_frame.hyps(2) have rt': "rt' = fst (updatePlaying rt dt r)"
      by (auto simp: update_def)
    from updatePlaying_fields[OF l, of dt r] r_frame.IH Playing show ?thesis
      unfolding rt' by (auto simp: sessionInv_def validIndex_def)
  next
    case GameOver
    from r_frame.IH have v: "validIndex (state rt)" by (simp add: sessionInv_def)
    from updateGameOver_result[OF v, of "input rt"] GameOver r_frame.hyps(2) r_frame.IH
    show ?thesis by (auto simp: update_def sessionInv_def)
  qed
next
  case (r_click rt a rt')
  have v: "validIndex (state rt)" using r_click.IH by (simp add: sessionInv_def)
  show ?case
  proof (cases a)
    case OnStart
    with r_click show ?thesis by (auto simp: setScreen_def sessionInv_def validIndex_def)
  next
    case (OnSelectCharacter index)
    with r_click show ?thesis by (auto simp: selectCharacter_def sessionInv_def validIndex_def)
  next
    case OnStartGame
    with r_click beginPlay_inv[OF v] show ?thesis by auto
  next
    case OnRestart
    with r_click beginPlay_inv[OF v] show ?thesis by auto
  next
    case OnBackToCharacterSelect
    with r_click show ?thesis by (auto simp: setScreen_def sessionInv_def validIndex_def)
  qed
qed

section \<open>The properties of the specification\<close>

subsection \<open>Game over: the \<^verbatim>\<open>back\<close> key\<close>

text \<open>
  Claim C1, as the specification states it: on the game-over screen with the \<^verbatim>\<open>back\<close> flag
  set, \<^verbatim>\<open>updateGameOver\<close> resets the session and the resulting screen is \<^verbatim>\<open>characterSelect\<close>.
  On the code this fails twice. With \<^verbatim>\<open>back\<close> alone the state is overwritten with
  \<^verbatim>\<open>createInitialState()\<close>, whose screen is \<^verbatim>\<open>start\<close>. With \<^verbatim>\<open>restart\<close> set as well, the
  \<^verbatim>\<open>restart\<close> branch runs, \<^verbatim>\<open>back\<close> is not looked at, and a new round is played.
\<close>

theorem updateGameOver_back_counterexample:
  "map_option screen
     (stateOf (updateGameOver gameOverSample (createInputState\<lparr>backKey := True\<rparr>))) = Some Start
   \<and> Start \<noteq> CharacterSelect
   \<and> map_option screen
       (stateOf (updateGameOver gameOverSample
          (createInputState\<lparr>restart := True, backKey := True\<rparr>))) = Some Playing"
  by (simp add: stateOf_def updateGameOver_def gameOverSample_def createInputState_def
      createInitialState_def beginPlay_def characterAt_def createPlayer_def CHARACTERS_def)

text \<open>
  Claim C1, amended: on the game-over screen with \<^verbatim>\<open>back\<close> set and \<^verbatim>\<open>restart\<close> not set,
  \<^verbatim>\<open>updateGameOver\<close> returns, clears the \<^verbatim>\<open>back\<close> flag, keeps \<^verbatim>\<open>selectedCharacterIndex\<close> and
  gives every other field of the session but the screen its initial value. (Nothing is
  said here about the screen.)
\<close>

theorem updateGameOver_back_resets:
  assumes "\<not> restart inp" and "backKey inp"
  shows "\<exists>s'. updateGameOver s inp = Inr (s', inp\<lparr>backKey := False\<rparr>)
     \<and> selectedCharacterIndex s' = selectedCharacterIndex s
     \<and> player s' = player createInitialState \<and> score s' = score createInitialState
     \<and> lives s' = lives createInitialState \<and> elapsedTime s' = elapsedTime createInitialState
     \<and> spawnAccumulator s' = spawnAccumulator createInitialState
     \<and> items s' = items createInitialState \<and> missEffects s' = missEffects createInitialState
     \<and> lastBombTime s' = lastBombTime createInitialState
     \<and> lastSpawnX s' = lastSpawnX createInitialState"
  using assms by (simp add: updateGameOver_def)

theorem updateGameOver_back_resets_witness:
  "\<exists>s'. updateGameOver gameOverSample (createInputState\<lparr>backKey := True\<rparr>)
           = Inr (s', createInputState)
     \<and> selectedCharacterIndex s' = 2 \<and> player s' = None \<and> score s' = 0 \<and> lives s' = 3
     \<and> elapsedTime s' = 0 \<and> spawnAccumulator s' = 0 \<and> items s' = [] \<and> missEffects s' = []
     \<and> lastBombTime s' = NegInfinity \<and> lastSpawnX s' = 350"
proof -
  have "\<not> restart (createInputState\<lparr>backKey := True\<rparr>)"
    and "backKey (createInputState\<lparr>backKey := True\<rparr>)"
    by (simp_all add: createInputState_def)
  from updateGameOver_back_resets [OF this, of gameOverSample] show ?thesis
    by (auto simp: createInputState_def createInitialState_def gameOverSample_def
        GAME_CONFIG_initialLives_def GAME_CONFIG_width_def)
qed

subsection \<open>Collision test\<close>

text \<open>
  Claim C2, as the specification states it: \<^verbatim>\<open>aabbIntersect\<close> is false for two rectangles
  that share only a touching edge. The code negates the strict comparisons, so two
  rectangles are disjoint only when a gap separates them: for the squares \<open>[0,10] \<times> [0,10]\<close>
  and \<open>[10,20] \<times> [0,10]\<close>, which share the edge \<open>x = 10\<close>, the result is true.
\<close>

theorem aabbIntersect_touching_counterexample:
  "xpos (\<lparr>xpos = 0, ypos = 0, width = 10, height = 10\<rparr> :: Rect)
     + width (\<lparr>xpos = 0, ypos = 0, width = 10, height = 10\<rparr> :: Rect)
     = xpos (\<lparr>xpos = 10, ypos = 0, width = 10, height = 10\<rparr> :: Rect)
   \<and> aabbIntersect (\<lparr>xpos = 0, ypos = 0, width = 10, height = 10\<rparr> :: Rect)
        (\<lparr>xpos = 10, ypos = 0, width = 10, height = 10\<rparr> :: Rect)"
  by (simp add: aabbIntersect_def)

text \<open>
  Claim C2, amended: for rectangles of non-negative width whose vertical ranges meet,
  a shared vertical edge (\<open>a.x + a.width = b.x\<close>) makes \<^verbatim>\<open>aabbIntersect\<close> true, in both
  argument orders: touching edges count as overlap.
\<close>

theorem aabbIntersect_touching_edge:
  assumes "0 \<le> width a" and "0 \<le> width b"
    and "xpos a + width a = xpos b"
    and "ypos a \<le> ypos b + height b" and "ypos b \<le> ypos a + height a"
  shows "aabbIntersect a b \<and> aabbIntersect b a"
  using assms unfolding aabbIntersect_def by linarith

theorem aabbIntersect_touching_edge_witness:
  "aabbIntersect (\<lparr>xpos = 3, ypos = 1, width = 4, height = 5\<rparr> :: Rect)
     (\<lparr>xpos = 7, ypos = 2, width = 2, height = 2\<rparr> :: Rect)
   \<and> aabbIntersect (\<lparr>xpos = 7, ypos = 2, width = 2, height = 2\<rparr> :: Rect)
        (\<lparr>xpos = 3, ypos = 1, width = 4, height = 5\<rparr> :: Rect)"
  using aabbIntersect_touching_edge
    [of "\<lparr>xpos = 3, ypos = 1, width = 4, height = 5\<rparr> :: Rect"
        "\<lparr>xpos = 7, ypos = 2, width = 2, height = 2\<rparr> :: Rect"]
  by simp

subsection \<open>A hazard on the player\<close>

text \<open>
  Claim C3: in \<^verbatim>\<open>updatePlaying\<close>, take an item of the collection that is a hazard and, after
  the moves of this frame, overlaps the player. Then the frame ends with no lives and on
  the game-over screen, whatever the number of lives was, provided the loop gets to that
  item: that is, in a round that still has a life, or when no item before it is missed.
  And the items behind it are not processed: the whole result of the frame is the one
  obtained with these items removed from the collection.
\<close>

theorem hazard_hit_ends_round:
  assumes "player (state rt) = Some p0"
    and "items (state rt) = pre @ h # post"
    and "hazardous (itemType h)"
    and "aabbIntersect (movePlayer (input rt) dt p0) (h\<lparr>ypos := ypos h + vy h * dt\<rparr>)"
  shows "(1 \<le> lives (state rt) \<or> (\<forall>i \<in> set pre. \<not> missed (movePlayer (input rt) dt p0) dt (GAME_CONFIG_height - 10) i)
          \<longrightarrow> lives (state (fst (updatePlaying rt dt r))) = 0
            \<and> screen (state (fst (updatePlaying rt dt r))) = GameOver)
       \<and> updatePlaying rt dt r = updatePlaying (rt\<lparr>state := (state rt)\<lparr>items := pre @ [h]\<rparr>\<rparr>) dt r"
proof -
  let ?p = "movePlayer (input rt) dt p0"
  let ?g = "GAME_CONFIG_height - 10"
  let ?rtB = "rt\<lparr>state := (state rt)\<lparr>items := pre @ [h]\<rparr>\<rparr>"
  let ?s2 = "(state rt)\<lparr>player := Some ?p,
                   elapsedTime := elapsedTime (state rt) + dt,
                   spawnAccumulator := spawnAccumulator (state rt) + dt\<rparr>"
  let ?age = "\<lambda>ms. filter (\<lambda>fx. timer fx > 0) (map (\<lambda>fx. fx\<lparr>timer := timer fx - dt\<rparr>) ms)"
  have pB: "player (state ?rtB) = Some p0" using assms(1) by simp
  from updatePlaying_decompose[OF assms(1), of dt r] obtain s3 r' s4 rem iv d where
    sp: "spawnLoop iv d 0 ?s2 r = (s3, r')" and
    il: "itemLoop ?p dt ?g (items s3) s3 [] = (s4, rem)" and
    up: "updatePlaying rt dt r =
       (rt\<lparr>state := s4\<lparr>items := rem, missEffects := ?age (missEffects s4)\<rparr>, spawnRateDebug := spawnRate d\<rparr>, r')" and
    d: "d = getDifficulty (elapsedTime (state rt) + dt)" and
    iv: "iv = (if spawnRate d > 0 then Some (1 / spawnRate d) else None)"
    by fastforce
  have eB: "(state ?rtB)\<lparr>player := Some ?p,
                   elapsedTime := elapsedTime (state rt) + dt,
                   spawnAccumulator := spawnAccumulator (state rt) + dt\<rparr> = ?s2\<lparr>items := pre @ [h]\<rparr>"
    by simp
  have selB: "input ?rtB = input rt" "elapsedTime (state ?rtB) = elapsedTime (state rt)"
    "spawnAccumulator (state ?rtB) = spawnAccumulator (state rt)"
    "\<And>X Y. ?rtB\<lparr>state := X, spawnRateDebug := Y\<rparr> = rt\<lparr>state := X, spawnRateDebug := Y\<rparr>"
    by simp_all
  from updatePlaying_decompose[OF pB, of dt r, unfolded selB, unfolded eB] obtain s3B rB s4B remB where
    spB: "spawnLoop iv d 0 (?s2\<lparr>items := pre @ [h]\<rparr>) r = (s3B, rB)" and
    ilB: "itemLoop ?p dt ?g (items s3B) s3B [] = (s4B, remB)" and
    upB: "updatePlaying ?rtB dt r =
       (rt\<lparr>state := s4B\<lparr>items := remB, missEffects := ?age (missEffects s4B)\<rparr>, spawnRateDebug := spawnRate d\<rparr>, rB)"
    unfolding d iv by fastforce
  from spawnLoop_frame[of 0 iv d ?s2 r] obtain new acc lb lx r'' where
    fr: "\<And>X. spawnLoop iv d 0 (?s2\<lparr>items := X\<rparr>) r =
        (?s2\<lparr>spawnAccumulator := acc, lastBombTime := lb, lastSpawnX := lx, items := X @ new\<rparr>, r'')"
    by blast
  define z where "z = ?s2\<lparr>spawnAccumulator := acc, lastBombTime := lb, lastSpawnX := lx\<rparr>"
  have frz: "spawnLoop iv d 0 (?s2\<lparr>items := X\<rparr>) r = (z\<lparr>items := X @ new\<rparr>, r'')" for X
    using fr[of X] by (simp add: z_def)
  have s3: "s3 = z\<lparr>items := pre @ h # (post @ new)\<rparr>" and r': "r' = r''"
  proof -
    have "?s2\<lparr>items := pre @ h # post\<rparr> = ?s2"
      using assms(2) by (cases "state rt") simp
    with frz[of "pre @ h # post"] sp
    show "s3 = z\<lparr>items := pre @ h # (post @ new)\<rparr>" and "r' = r''"
      by simp_all
  qed
  have s3B: "s3B = z\<lparr>items := pre @ h # new\<rparr>" and rB: "rB = r''"
    using frz[of "pre @ [h]"] spB by simp_all
  obtain w remw where w: "itemLoop ?p dt ?g (pre @ [h]) z [] = (w, remw)"
    by (cases "itemLoop ?p dt ?g (pre @ [h]) z []") auto
  have cut: "itemLoop ?p dt ?g (pre @ h # post') z [] = (w, remw)" for post'
    using itemLoop_hazard_cut[OF assms(3,4), where g = ?g and pre = pre and post = post' and s = z and rem = "[]"] w
    by simp
  have "itemLoop ?p dt ?g (items s3) s3 [] = (w\<lparr>items := pre @ h # (post @ new)\<rparr>, remw)"
    unfolding s3 by (simp add: itemLoop_items_irrelevant cut)
  with il have s4: "s4 = w\<lparr>items := pre @ h # (post @ new)\<rparr>" "rem = remw" by simp_all
  have "itemLoop ?p dt ?g (items s3B) s3B [] = (w\<lparr>items := pre @ h # new\<rparr>, remw)"
    unfolding s3B by (simp add: itemLoop_items_irrelevant cut)
  with ilB have s4B: "s4B = w\<lparr>items := pre @ h # new\<rparr>" "remB = remw" by simp_all
  have eq: "updatePlaying rt dt r = updatePlaying ?rtB dt r"
    unfolding up upB s4 s4B r' rB by simp
  have l: "lives (state (fst (updatePlaying rt dt r))) = lives w"
    "screen (state (fst (updatePlaying rt dt r))) = screen w"
    unfolding up s4 by simp_all
  have "lives w = 0 \<and> screen w = GameOver"
    if "1 \<le> lives (state rt) \<or> (\<forall>i \<in> set pre. \<not> missed ?p dt ?g i)"
    using that
  proof
    assume "1 \<le> lives (state rt)"
    then have "1 \<le> lives z" by (simp add: z_def)
    from itemLoop_hazard_ends[OF assms(3,4) this, where g = ?g and pre = pre and post = "[]" and rem = "[]"] cut[of "[]"]
    show ?thesis by simp
  next
    assume "\<forall>i \<in> set pre. \<not> missed ?p dt ?g i"
    from itemLoop_hazard_reached[OF assms(3,4) this, where post = "[]" and s = z and rem = "[]"] cut[of "[]"]
    show ?thesis by simp
  qed
  with l eq show ?thesis by simp
qed

theorem hazard_hit_ends_round_witness:
  "lives (state (fst (updatePlaying hazardRuntime 0.016 demoDraws))) = 0
   \<and> screen (state (fst (updatePlaying hazardRuntime 0.016 demoDraws))) = GameOver
   \<and> updatePlaying hazardRuntime 0.016 demoDraws
       = updatePlaying
           (hazardRuntime\<lparr>state := (state hazardRuntime)\<lparr>items := [midAirItem] @ [bombOnPlayer]\<rparr>\<rparr>)
           0.016 demoDraws"
proof -
  let ?p0 = "\<lparr>xpos = 325, ypos = 396, width = 50, height = 100, speed = 300,
              color = ''#4fd1c5'', character = CHARACTERS ! 0\<rparr>"
  have 1: "player (state hazardRuntime) = Some ?p0"
    by (simp add: hazardRuntime_def startedRuntime_def startedState_def)
  have 2: "items (state hazardRuntime) = [midAirItem] @ bombOnPlayer # [groundItem]"
    by (simp add: hazardRuntime_def startedRuntime_def)
  have 3: "hazardous (itemType bombOnPlayer)"
    by (simp add: bombOnPlayer_def ITEM_TYPES_def hazardous_def)
  have 4: "aabbIntersect (movePlayer (input hazardRuntime) 0.016 ?p0)
             (bombOnPlayer\<lparr>ypos := ypos bombOnPlayer + vy bombOnPlayer * 0.016\<rparr>)"
    by (simp add: hazardRuntime_def startedRuntime_def createInputState_def movePlayer_def
        bombOnPlayer_def aabbIntersect_def GAME_CONFIG_width_def)
  have 5: "1 \<le> lives (state hazardRuntime)"
    by (simp add: hazardRuntime_def startedRuntime_def startedState_def)
  from hazard_hit_ends_round [OF 1 2 3 4, of demoDraws] 5 show ?thesis
    by blast
qed

subsection \<open>Lives\<close>

text \<open>
  Claim C4: in every runtime reachable from the initial one (by key events, frames with
  any \<open>dt\<close> and any random draws, and clicks on the buttons of the page), lives are not
  negative, a round that is being played has at least one life, every frame returns, and
  a frame that brings the lives to \<open>0\<close> ends on the game-over screen.
\<close>

theorem lives_never_negative:
  assumes "reachable rt"
  shows "0 \<le> lives (state rt)
       \<and> (screen (state rt) = Playing \<longrightarrow> 1 \<le> lives (state rt))
       \<and> (\<forall>dt r. \<exists>rt' r'. update rt dt r = Inr (rt', r')
             \<and> (lives (state rt) \<noteq> 0 \<longrightarrow> lives (state rt') = 0
                  \<longrightarrow> screen (state rt') = GameOver))"
proof -
  from reachable_inv [OF assms] have inv: "sessionInv (state rt)" .
  then have v: "validIndex (state rt)" by (simp add: sessionInv_def)
  have "\<exists>rt' r'. update rt dt r = Inr (rt', r')
             \<and> (lives (state rt) \<noteq> 0 \<longrightarrow> lives (state rt') = 0
                  \<longrightarrow> screen (state rt') = GameOver)" for dt r
  proof (cases "screen (state rt)")
    case Start
    then show ?thesis by (simp add: update_def)
  next
    case CharacterSelect
    with updateCharacterSelect_result [OF v, of "input rt" dt] show ?thesis
      by (auto simp: update_def)
  next
    case Playing
    with inv have l: "1 \<le> lives (state rt)" by (simp add: sessionInv_def)
    obtain rt' r' where u: "updatePlaying rt dt r = (rt', r')"
      by (cases "updatePlaying rt dt r") auto
    with updatePlaying_fields [OF l, of dt r] Playing show ?thesis
      by (auto simp: update_def)
  next
    case GameOver
    with updateGameOver_result [OF v, of "input rt"] show ?thesis
      by (auto simp: update_def)
  qed
  with inv show ?thesis by (simp add: sessionInv_def)
qed

text \<open>
  A runtime to try it on: the one right after \<^verbatim>\<open>beginPlay\<close>, reached from the initial
  runtime by the clicks on ``start'' and ``start game''. A frame of six seconds spawns a
  bomb on the player, and the three lives are gone.
\<close>

lemma started_reachable: "reachable startedRuntime"
proof -
  let ?rt0 = "\<lparr>state = createInitialState, input = createInputState, spawnRateDebug = 0\<rparr>"
  have "reachable ?rt0" by (rule r_init)
  then have "reachable (setScreen ?rt0 CharacterSelect)"
    by (rule r_click [where a = OnStart]) simp
  moreover have "uiAction OnStartGame (setScreen ?rt0 CharacterSelect) = Inr startedRuntime"
    by (simp add: setScreen_def beginPlay_def characterAt_def createPlayer_def CHARACTERS_def
        createInitialState_def startedRuntime_def startedState_def GAME_CONFIG_width_def
        GAME_CONFIG_height_def GAME_CONFIG_initialLives_def)
  ultimately show ?thesis by (rule r_click)
qed

lemma started_frame_lives:
  "lives (state (fst (updatePlaying startedRuntime 6 demoDraws))) = 0"
  by code_simp

theorem lives_never_negative_witness:
  "lives (state startedRuntime) = 3
   \<and> update startedRuntime 6 demoDraws = Inr (updatePlaying startedRuntime 6 demoDraws)
   \<and> lives (state (fst (updatePlaying startedRuntime 6 demoDraws))) = 0
   \<and> screen (state (fst (updatePlaying startedRuntime 6 demoDraws))) = GameOver"
proof -
  have u: "update startedRuntime 6 demoDraws = Inr (updatePlaying startedRuntime 6 demoDraws)"
    by (simp add: update_def startedRuntime_def startedState_def)
  have l: "lives (state startedRuntime) = 3"
    by (simp add: startedRuntime_def startedState_def)
  from lives_never_negative [OF started_reachable] obtain rt' r' where
    "update startedRuntime 6 demoDraws = Inr (rt', r')"
    and g: "lives (state startedRuntime) \<noteq> 0 \<longrightarrow> lives (state rt') = 0
            \<longrightarrow> screen (state rt') = GameOver"
    by blast
  with u have "updatePlaying startedRuntime 6 demoDraws = (rt', r')" by simp
  then have "rt' = fst (updatePlaying startedRuntime 6 demoDraws)" by simp
  with g l started_frame_lives
  have "screen (state (fst (updatePlaying startedRuntime 6 demoDraws))) = GameOver" by simp
  with u l started_frame_lives show ?thesis by simp
qed

subsection \<open>Spawn scheduler\<close>

text \<open>
  Claim C5: one run of the spawn loop, from a count of \<open>0\<close> and with any interval, any
  accumulator and any draws, appends at most \<^verbatim>\<open>MAX_SPAWNS_PER_FRAME = 2\<close> items to the
  collection and changes none of the items already there; so a call of \<^verbatim>\<open>updatePlaying\<close>,
  with any \<open>dt\<close>, leaves at most two items more than it found.
\<close>

theorem spawn_cap:
  "(\<exists>new. items (fst (spawnLoop iv d 0 s r)) = items s @ new \<and> length new \<le> MAX_SPAWNS_PER_FRAME)
   \<and> MAX_SPAWNS_PER_FRAME = 2
   \<and> length (items (state (fst (updatePlaying rt dt r))))
        \<le> length (items (state rt)) + MAX_SPAWNS_PER_FRAME"
proof (intro conjI)
  from spawnLoop_frame[of 0 iv d s r] obtain new acc lb lx r' where
    len: "length new \<le> MAX_SPAWNS_PER_FRAME - 0" and
    "spawnLoop iv d 0 (s\<lparr>items := items s\<rparr>) r =
        (s\<lparr>spawnAccumulator := acc, lastBombTime := lb, lastSpawnX := lx, items := items s @ new\<rparr>, r')"
    by blast
  then have "items (fst (spawnLoop iv d 0 s r)) = items s @ new" by simp
  with len show "\<exists>new. items (fst (spawnLoop iv d 0 s r)) = items s @ new \<and> length new \<le> MAX_SPAWNS_PER_FRAME"
    by auto
next
  show "MAX_SPAWNS_PER_FRAME = 2" by (simp add: MAX_SPAWNS_PER_FRAME_def)
next
  show "length (items (state (fst (updatePlaying rt dt r))))
        \<le> length (items (state rt)) + MAX_SPAWNS_PER_FRAME"
  proof (cases "player (state rt)")
    case None
    then show ?thesis by (simp add: updatePlaying_no_player)
  next
    case (Some p0)
    let ?s2 = "(state rt)\<lparr>player := Some (movePlayer (input rt) dt p0),
                   elapsedTime := elapsedTime (state rt) + dt,
                   spawnAccumulator := spawnAccumulator (state rt) + dt\<rparr>"
    from updatePlaying_decompose[OF Some, of dt r] obtain s3 r' s4 rem iv d where
      sp: "spawnLoop iv d 0 ?s2 r = (s3, r')" and
      il: "itemLoop (movePlayer (input rt) dt p0) dt (GAME_CONFIG_height - 10) (items s3) s3 [] = (s4, rem)" and
      up: "state (fst (updatePlaying rt dt r)) = s4\<lparr>items := rem,
                missEffects := filter (\<lambda>fx. timer fx > 0)
                  (map (\<lambda>fx. fx\<lparr>timer := timer fx - dt\<rparr>) (missEffects s4))\<rparr>"
      by fastforce
    from spawnLoop_frame[of 0 iv d ?s2 r] obtain new acc lb lx r'' where
      len: "length new \<le> MAX_SPAWNS_PER_FRAME - 0" and
      "spawnLoop iv d 0 (?s2\<lparr>items := items ?s2\<rparr>) r =
        (?s2\<lparr>spawnAccumulator := acc, lastBombTime := lb, lastSpawnX := lx, items := items ?s2 @ new\<rparr>, r'')"
      by blast
    with sp have s3: "items s3 = items (state rt) @ new"
      by auto
    from itemLoop_length[of "movePlayer (input rt) dt p0" dt "GAME_CONFIG_height - 10" "items s3" s3 "[]"] il
    have "length rem \<le> length (items s3)" by simp
    with s3 len up show ?thesis by simp
  qed
qed

subsection \<open>Item selection\<close>

text \<open>
  Claim C6: before five seconds of the round have elapsed, and within \<open>1.2\<close> seconds of
  the last bomb, \<^verbatim>\<open>pickItemType\<close> returns an item that is not a hazard (and is not the
  bomb), whatever the random draws are; it leaves the state as it was.
\<close>

theorem pickItemType_hazard_excluded:
  assumes "elapsedTime s < 5
           \<or> (case lastBombTime s of NegInfinity \<Rightarrow> False | BombAt b \<Rightarrow> elapsedTime s - b < 1.2)"
  shows "\<not> hazardous (fst (pickItemType s r)) \<and> itemId (fst (pickItemType s r)) \<noteq> ''bomb''
       \<and> fst (snd (pickItemType s r)) = s"
proof -
  from assms have "bombChanceAt (find (\<lambda>t. itemId t = ''bomb'' \<and> hazardous t) ITEM_TYPES)
      (elapsedTime s) (lastBombTime s) = 0"
    by (auto simp: bombChanceAt_def Let_def split: BombTime.splits)
  then show ?thesis
    unfolding pickItemType_def Let_def
    by (simp add: ITEM_TYPES_def plainItem_def hazardous_def random_def characterItemIds_def
        split: prod.splits)
qed

text \<open>
  At \<open>50\<close> seconds a first draw of \<open>0.01\<close> selects the bomb; half a second after a bomb it
  does not.
\<close>

lemma pickItemType_bomb_example:
  "itemId (fst (pickItemType (startedState\<lparr>elapsedTime := 50\<rparr>) demoDraws)) = ''bomb''"
  by code_simp

theorem pickItemType_hazard_excluded_witness:
  "\<not> hazardous (fst (pickItemType
        (startedState\<lparr>elapsedTime := 50, lastBombTime := BombAt 49.5\<rparr>) demoDraws))
   \<and> itemId (fst (pickItemType
        (startedState\<lparr>elapsedTime := 50, lastBombTime := BombAt 49.5\<rparr>) demoDraws)) \<noteq> ''bomb''"
  using pickItemType_hazard_excluded
    [of "startedState\<lparr>elapsedTime := 50, lastBombTime := BombAt 49.5\<rparr>" demoDraws]
  by simp

subsection \<open>Difficulty curve\<close>

text \<open>
  Claim C7: for \<open>t\<close> strictly between two adjacent keyframes \<open>a\<close> and \<open>b\<close> of the configured
  curve, \<^verbatim>\<open>getDifficulty(t)\<close> is the linear interpolation of both fields with the fraction
  \<open>(t - a.time) / (b.time - a.time)\<close>; and \<^verbatim>\<open>getDifficulty(45)\<close> is \<open>(1.5, 1.1)\<close>.
\<close>

theorem getDifficulty_interpolates:
  "(\<forall>i a b t.
      i < length DIFFICULTY_CURVE - 1 \<longrightarrow> a = DIFFICULTY_CURVE ! i \<longrightarrow>
      b = DIFFICULTY_CURVE ! (i + 1) \<longrightarrow> time a < t \<longrightarrow> t < time b \<longrightarrow>
      getDifficulty t =
        \<lparr>spawnRate = spawnRate a + (spawnRate b - spawnRate a) * ((t - time a) / (time b - time a)),
         speedMultiplier = speedMultiplier a
           + (speedMultiplier b - speedMultiplier a) * ((t - time a) / (time b - time a))\<rparr>)
   \<and> getDifficulty 45 = \<lparr>spawnRate = 1.5, speedMultiplier = 1.1\<rparr>"
proof (intro conjI allI impI)
  fix i :: nat and a b :: DifficultyKeyframe and t :: real
  assume i: "i < length DIFFICULTY_CURVE - 1"
    and ab: "a = DIFFICULTY_CURVE ! i" "b = DIFFICULTY_CURVE ! (i + 1)"
    and t: "time a < t" "t < time b"
  from i have "i = 0 \<or> i = 1 \<or> i = 2 \<or> i = 3"
    by (auto simp: DIFFICULTY_CURVE_def)
  then show "getDifficulty t =
        \<lparr>spawnRate = spawnRate a + (spawnRate b - spawnRate a) * ((t - time a) / (time b - time a)),
         speedMultiplier = speedMultiplier a
           + (speedMultiplier b - speedMultiplier a) * ((t - time a) / (time b - time a))\<rparr>"
    using ab t
    by (elim disjE) (simp_all add: getDifficulty_def DIFFICULTY_CURVE_def keyframe_def)
next
  show "getDifficulty 45 = \<lparr>spawnRate = 1.5, speedMultiplier = 1.1\<rparr>"
    by (simp add: getDifficulty_def DIFFICULTY_CURVE_def keyframe_def)
qed

theorem getDifficulty_interpolates_witness:
  "getDifficulty 100 = \<lparr>spawnRate = 2.6, speedMultiplier = 22 / 15\<rparr>"
proof -
  have "(3::nat) < length DIFFICULTY_CURVE - 1"
    by (simp add: DIFFICULTY_CURVE_def)
  moreover have "time (DIFFICULTY_CURVE ! 3) < 100" "100 < time (DIFFICULTY_CURVE ! (3 + 1))"
    by (simp_all add: DIFFICULTY_CURVE_def keyframe_def)
  ultimately have "getDifficulty 100 =
      \<lparr>spawnRate = spawnRate (DIFFICULTY_CURVE ! 3)
         + (spawnRate (DIFFICULTY_CURVE ! (3 + 1)) - spawnRate (DIFFICULTY_CURVE ! 3))
           * ((100 - time (DIFFICULTY_CURVE ! 3))
              / (time (DIFFICULTY_CURVE ! (3 + 1)) - time (DIFFICULTY_CURVE ! 3))),
       speedMultiplier = speedMultiplier (DIFFICULTY_CURVE ! 3)
         + (speedMultiplier (DIFFICULTY_CURVE ! (3 + 1)) - speedMultiplier (DIFFICULTY_CURVE ! 3))
           * ((100 - time (DIFFICULTY_CURVE ! 3))
              / (time (DIFFICULTY_CURVE ! (3 + 1)) - time (DIFFICULTY_CURVE ! 3)))\<rparr>"
    using getDifficulty_interpolates by blast
  then show ?thesis
    by (simp add: DIFFICULTY_CURVE_def keyframe_def)
qed

subsection \<open>Round initialisation\<close>

text \<open>
  Claim C8: \<^verbatim>\<open>beginPlay\<close>, from a state of any score, lives, times, items and effects whose
  selected character is one of the catalog, returns with score \<open>0\<close>, the initial lives
  (\<open>3\<close>), elapsed time and spawn accumulator \<open>0\<close>, no items, no miss effects, the bomb time
  \<^verbatim>\<open>-Infinity\<close> and the last spawn position at the centre of the field.
\<close>

theorem beginPlay_resets_round:
  assumes "0 \<le> selectedCharacterIndex s"
    and "selectedCharacterIndex s < int (length CHARACTERS)"
  shows "\<exists>s'. beginPlay s = Inr s' \<and> score s' = 0
           \<and> lives s' = GAME_CONFIG_initialLives \<and> GAME_CONFIG_initialLives = 3
           \<and> elapsedTime s' = 0 \<and> spawnAccumulator s' = 0
           \<and> items s' = [] \<and> missEffects s' = []
           \<and> lastBombTime s' = NegInfinity
           \<and> lastSpawnX s' = GAME_CONFIG_width / 2
           \<and> selectedCharacterIndex s' = selectedCharacterIndex s"
  using assms
  by (simp add: beginPlay_def characterAt_def createPlayer_def GAME_CONFIG_initialLives_def)

theorem beginPlay_resets_round_witness:
  "\<exists>s'. beginPlay (createInitialState\<lparr>screen := GameOver, selectedCharacterIndex := 2,
              score := 17, lives := 0, elapsedTime := 41, spawnAccumulator := 0.25,
              lastBombTime := BombAt 40, lastSpawnX := 120\<rparr>) = Inr s'
        \<and> score s' = 0 \<and> lives s' = 3 \<and> elapsedTime s' = 0 \<and> spawnAccumulator s' = 0
        \<and> items s' = [] \<and> missEffects s' = [] \<and> lastBombTime s' = NegInfinity
        \<and> lastSpawnX s' = 350 \<and> selectedCharacterIndex s' = 2"
proof -
  let ?s = "createInitialState\<lparr>screen := GameOver, selectedCharacterIndex := 2,
              score := 17, lives := 0, elapsedTime := 41, spawnAccumulator := 0.25,
              lastBombTime := BombAt 40, lastSpawnX := 120\<rparr>"
  have "0 \<le> selectedCharacterIndex ?s" and "selectedCharacterIndex ?s < int (length CHARACTERS)"
    by (simp_all add: CHARACTERS_def)
  from beginPlay_resets_round [OF this] show ?thesis
    by (auto simp: GAME_CONFIG_width_def)
qed


subsection \<open>Spawn position\<close>

text \<open>
  Claim C9: for a field of non-negative width, when the previous spawn position \<open>l\<close> lies in
  \<open>[margin, fieldWidth - width - margin]\<close> (the margin is \<open>12\<close>, the width that of the item
  type, \<open>12\<close> when it has none), the item that \<^verbatim>\<open>createFallingItem\<close> returns is at most
  \<open>35%\<close> of the field width away from \<open>l\<close>, whatever the random draw is.
\<close>

theorem createFallingItem_step_bound:
  assumes "0 \<le> canvasWidth"
    and "w = (case typeWidth ty of Some v \<Rightarrow> v | None \<Rightarrow> 12)"
    and "12 \<le> l" and "l \<le> canvasWidth - w - 12"
  shows "\<bar>xpos (fst (createFallingItem ty canvasWidth (Some l) r)) - l\<bar> \<le> 0.35 * canvasWidth"
proof -
  obtain u r' where ur: "random r = (u, r')" by (cases "random r")
  define x0 where "x0 = u * (canvasWidth - w - 12 - 12) + 12"
  define maxStep where "maxStep = canvasWidth * 0.35"
  have ms: "0 \<le> maxStep" using assms(1) by (simp add: maxStep_def)
  have x: "xpos (fst (createFallingItem ty canvasWidth (Some l) r)) =
        (if \<bar>x0 - l\<bar> > maxStep
         then max 12 (min (canvasWidth - w - 12) (l + sgn (x0 - l) * maxStep))
         else x0)"
    using assms(2) by (simp add: createFallingItem_def Let_def ur x0_def maxStep_def)
  show ?thesis
  proof (cases "\<bar>x0 - l\<bar> > maxStep")
    case False
    then show ?thesis using x by (simp add: maxStep_def)
  next
    case True
    have "sgn (x0 - l) = 1 \<or> sgn (x0 - l) = -1"
      using True ms by (cases "x0 - l > 0") (auto simp: sgn_if)
    then show ?thesis
      using x True ms assms(3,4) unfolding maxStep_def by (auto simp: max_def min_def)
  qed
qed

text \<open>
  With the last spawn at the left margin and a draw near \<open>1\<close>, the item lands \<open>245\<close> to the
  right of it, not at \<open>649.56\<close>.
\<close>

theorem createFallingItem_step_bound_witness:
  "\<bar>xpos (fst (createFallingItem (ITEM_TYPES ! 0) 700 (Some 12) (\<lambda>n. 0.99))) - 12\<bar> \<le> 0.35 * 700
   \<and> xpos (fst (createFallingItem (ITEM_TYPES ! 0) 700 (Some 12) (\<lambda>n. 0.99))) = 257"
proof -
  have "32 = (case typeWidth (ITEM_TYPES ! 0) of Some v \<Rightarrow> v | None \<Rightarrow> 12)"
    by (simp add: ITEM_TYPES_def plainItem_def)
  from createFallingItem_step_bound [OF _ this, of 700 12 "\<lambda>n. 0.99"]
  have "\<bar>xpos (fst (createFallingItem (ITEM_TYPES ! 0) 700 (Some 12) (\<lambda>n. 0.99))) - 12\<bar>
          \<le> 0.35 * 700"
    by simp
  moreover have "xpos (fst (createFallingItem (ITEM_TYPES ! 0) 700 (Some 12) (\<lambda>n. 0.99))) = 257"
    by (simp add: createFallingItem_def random_def ITEM_TYPES_def plainItem_def)
  ultimately show ?thesis by simp
qed

subsection \<open>Selected character\<close>

text \<open>
  Claim C10: every operation on the session keeps \<^verbatim>\<open>selectedCharacterIndex\<close> in
  \<open>[0, CHARACTERS.length)\<close>. The initial state has a valid index; from a valid index,
  \<^verbatim>\<open>updateCharacterSelect\<close> returns with a valid index, \<^verbatim>\<open>left\<close> alone stepping it down and
  \<^verbatim>\<open>right\<close> alone stepping it up, modulo the catalog size; \<^verbatim>\<open>selectCharacter\<close> keeps it valid
  and changes nothing when its argument is out of range; \<^verbatim>\<open>beginPlay\<close>, \<^verbatim>\<open>updatePlaying\<close> and
  \<^verbatim>\<open>updateGameOver\<close> return with the index they found; so every reachable runtime has a
  valid index.
\<close>

theorem selectedCharacterIndex_in_range:
  "validIndex createInitialState
   \<and> (validIndex s \<longrightarrow>
        (\<exists>s' inp'. updateCharacterSelect s inp dt = Inr (s', inp') \<and> validIndex s'
           \<and> (left inp \<and> \<not> right inp \<longrightarrow> selectedCharacterIndex s'
                 = (selectedCharacterIndex s - 1) mod int (length CHARACTERS))
           \<and> (right inp \<and> \<not> left inp \<longrightarrow> selectedCharacterIndex s'
                 = (selectedCharacterIndex s + 1) mod int (length CHARACTERS))
           \<and> (\<not> left inp \<and> \<not> right inp \<longrightarrow> selectedCharacterIndex s' = selectedCharacterIndex s)))
   \<and> (validIndex s \<longrightarrow> validIndex (selectCharacter s index))
   \<and> (\<not> (0 \<le> index \<and> index < int (length CHARACTERS)) \<longrightarrow> selectCharacter s index = s)
   \<and> (validIndex s \<longrightarrow>
        (\<exists>s'. beginPlay s = Inr s' \<and> selectedCharacterIndex s' = selectedCharacterIndex s))
   \<and> selectedCharacterIndex (state (fst (updatePlaying rt dt r)))
        = selectedCharacterIndex (state rt)
   \<and> (validIndex s \<longrightarrow>
        (\<exists>s' inp'. updateGameOver s inp = Inr (s', inp')
           \<and> selectedCharacterIndex s' = selectedCharacterIndex s))
   \<and> (reachable rt \<longrightarrow> validIndex (state rt))"
proof (intro conjI impI)
  show "validIndex createInitialState"
    by (simp add: validIndex_def createInitialState_def CHARACTERS_def)
next
  assume v: "validIndex s"
  from updateCharacterSelect_result [OF v, of inp dt] cycle_wraps [OF v]
  show "\<exists>s' inp'. updateCharacterSelect s inp dt = Inr (s', inp') \<and> validIndex s'
           \<and> (left inp \<and> \<not> right inp \<longrightarrow> selectedCharacterIndex s'
                 = (selectedCharacterIndex s - 1) mod int (length CHARACTERS))
           \<and> (right inp \<and> \<not> left inp \<longrightarrow> selectedCharacterIndex s'
                 = (selectedCharacterIndex s + 1) mod int (length CHARACTERS))
           \<and> (\<not> left inp \<and> \<not> right inp \<longrightarrow> selectedCharacterIndex s' = selectedCharacterIndex s)"
    by auto
next
  assume "validIndex s"
  then show "validIndex (selectCharacter s index)"
    by (simp add: selectCharacter_def validIndex_def)
next
  assume "\<not> (0 \<le> index \<and> index < int (length CHARACTERS))"
  then show "selectCharacter s index = s"
    by (auto simp: selectCharacter_def)
next
  assume "validIndex s"
  from beginPlay_inv [OF this]
  show "\<exists>s'. beginPlay s = Inr s' \<and> selectedCharacterIndex s' = selectedCharacterIndex s"
    by blast
next
  show "selectedCharacterIndex (state (fst (updatePlaying rt dt r)))
        = selectedCharacterIndex (state rt)"
    by (rule updatePlaying_index)
next
  assume "validIndex s"
  from updateGameOver_result [OF this, of inp]
  show "\<exists>s' inp'. updateGameOver s inp = Inr (s', inp')
           \<and> selectedCharacterIndex s' = selectedCharacterIndex s"
    by blast
next
  assume "reachable rt"
  from reachable_inv [OF this] show "validIndex (state rt)"
    by (simp add: sessionInv_def)
qed

text \<open>
  From the first character, \<^verbatim>\<open>left\<close> wraps to the last one; an index of \<open>4\<close> or \<open>-1\<close> is
  ignored by \<^verbatim>\<open>selectCharacter\<close>.
\<close>

theorem selectedCharacterIndex_in_range_witness:
  "(\<exists>s' inp'. updateCharacterSelect (createInitialState\<lparr>screen := CharacterSelect\<rparr>)
                 (createInputState\<lparr>left := True\<rparr>) 0.016 = Inr (s', inp')
        \<and> selectedCharacterIndex s' = 3)
   \<and> selectCharacter (createInitialState\<lparr>screen := CharacterSelect\<rparr>) 4
       = createInitialState\<lparr>screen := CharacterSelect\<rparr>
   \<and> validIndex (state startedRuntime)"
proof -
  let ?s = "createInitialState\<lparr>screen := CharacterSelect\<rparr>"
  let ?i = "createInputState\<lparr>left := True\<rparr>"
  note t = selectedCharacterIndex_in_range
    [where s = ?s and inp = ?i and dt = "0.016" and index = 4 and rt = startedRuntime
       and r = demoDraws]
  have v: "validIndex ?s"
    by (simp add: validIndex_def createInitialState_def CHARACTERS_def)
  have i: "left ?i \<and> \<not> right ?i"
    by (simp add: createInputState_def)
  from t v i obtain s' inp' where
    "updateCharacterSelect ?s ?i 0.016 = Inr (s', inp')"
    "selectedCharacterIndex s' = (selectedCharacterIndex ?s - 1) mod int (length CHARACTERS)"
    by blast
  moreover have "(selectedCharacterIndex ?s - 1) mod int (length CHARACTERS) = 3"
    by (simp add: createInitialState_def CHARACTERS_def)
  ultimately have a: "\<exists>s' inp'. updateCharacterSelect ?s ?i 0.016 = Inr (s', inp')
        \<and> selectedCharacterIndex s' = 3"
    by auto
  have "\<not> (0 \<le> (4::int) \<and> 4 < int (length CHARACTERS))"
    by (simp add: CHARACTERS_def)
  with t have b: "selectCharacter ?s 4 = ?s" by blast
  from t started_reachable have c: "validIndex (state startedRuntime)" by blast
  from a b c show ?thesis by blast
qed

end
